theory Spec2Isabelle
  imports Complex_Main "HOL-Library.AList" "HOL-Library.Sublist"
begin

section \<open>Values, dictionaries and errors\<close>

text \<open>
  The program of \<^verbatim>\<open>main.py\<close> resolves postal codes (CEPs) against two HTTP services,
  collects the answers in a table, sends one e-mail per resolved code and tallies the
  outcomes in a report. The remote services, the mail relay and the file system are
  oracles of an environment; every call made to them is appended to a log of the
  world state, so that "which calls were made" is a property of a value.

  Strings are lists of characters with code points below 256. Calls of
  \<^verbatim>\<open>logger.info\<close> and \<^verbatim>\<open>print\<close> write to sinks nothing reads back and are left out;
  calls of \<^verbatim>\<open>logger.error\<close> are kept, as the list of the errors they were given.
\<close>

text \<open>A value decoded by \<^verbatim>\<open>requisicao.json()\<close>; an object keeps its keys in order.\<close>

datatype json =
    JNull
  | JBool bool
  | JNum real
  | JStr string
  | JArr "json list"
  | JObj "(string \<times> json) list"

type_synonym dict = "(string \<times> json) list"

text \<open>Python's truth value of a decoded value, as \<^verbatim>\<open>not x\<close> tests it.\<close>

fun truthy :: "json \<Rightarrow> bool" where
  "truthy JNull = False"
| "truthy (JBool b) = b"
| "truthy (JNum x) = (x \<noteq> 0)"
| "truthy (JStr s) = (s \<noteq> [])"
| "truthy (JArr xs) = (xs \<noteq> [])"
| "truthy (JObj kvs) = (kvs \<noteq> [])"

text \<open>\<^verbatim>\<open>d.get(k)\<close>: the value, or \<^verbatim>\<open>None\<close> for a missing key.\<close>

definition dict_get :: "dict \<Rightarrow> string \<Rightarrow> json" where
  "dict_get d k = (case map_of d k of None \<Rightarrow> JNull | Some v \<Rightarrow> v)"

text \<open>
  The exceptions of the program. The \<^verbatim>\<open>ValueError\<close>s are told apart: the two the program
  raises itself (a code a service does not know, an input file without the column
  \<^verbatim>\<open>CEP\<close>), one of \<^verbatim>\<open>read_csv\<close> for a file it cannot parse, and one of \<^verbatim>\<open>EmailMessage\<close> for a
  header value it refuses. An exception of \<^verbatim>\<open>smtplib\<close> carries the stage of the session
  that raised it.
\<close>

datatype value_error =
    CepNaoEncontrado string
  | SemColunaCEP
  | ErroDeLeitura
  | CabecalhoRecusado string

datatype smtp_stage = Connect | Starttls | Login | SendMessage | Quit

datatype py_error =
    RequestException
  | HTTPError nat
  | JSONDecodeError
  | TypeError
  | AttributeError
  | ValueError value_error
  | KeyError string
  | UnboundLocalError string
  | FileNotFoundError
  | OSError
  | UnicodeEncodeError
  | SMTPException smtp_stage

section \<open>String operations\<close>

text \<open>
  \<^verbatim>\<open>s.replace(old, new)\<close>: the occurrences of \<open>old\<close> are replaced from left to right
  without overlap. The counter of \<open>replace_from\<close> is the number of characters still to
  skip after a match.
\<close>

fun replace_from :: "string \<Rightarrow> string \<Rightarrow> nat \<Rightarrow> string \<Rightarrow> string" where
  "replace_from old new k [] = []"
| "replace_from old new (Suc k) (c # cs) = replace_from old new k cs"
| "replace_from old new 0 (c # cs) =
     (if prefix old (c # cs) then new @ replace_from old new (length old - 1) cs
      else c # replace_from old new 0 cs)"

definition py_replace :: "string \<Rightarrow> string \<Rightarrow> string \<Rightarrow> string" where
  "py_replace old new s =
     (if old = [] then new @ concat (map (\<lambda>c. c # new) s)
      else replace_from old new 0 s)"

text \<open>\<^verbatim>\<open>c.isspace()\<close> on the code points below 256.\<close>

definition isspace :: "char \<Rightarrow> bool" where
  "isspace c = (of_char c \<in> {9, 10, 11, 12, 13, 28, 29, 30, 31, 32, 133, 160 :: nat})"

definition strip :: "string \<Rightarrow> string" where
  "strip s = rev (dropWhile isspace (rev (dropWhile isspace s)))"

section \<open>The world\<close>

text \<open>What one \<^verbatim>\<open>requests.get(link, timeout=10)\<close> brings back.\<close>

datatype http_outcome =
    NoResponse
  | Response nat "json option"

record email =
  msg_from :: string
  msg_to :: string
  msg_subject :: string
  msg_content :: string

datatype smtp_event =
    SmtpConnect string nat
  | SmtpStarttls
  | SmtpLogin string string
  | SmtpSend email
  | SmtpQuit

text \<open>
  How far one mail session gets: \<open>RaisesAt st\<close> is an exception raised by the call of
  stage \<open>st\<close>, \<open>Delivered\<close> a session in which every call returned.
\<close>

datatype smtp_outcome = RaisesAt smtp_stage | Delivered

text \<open>A pandas cell: a value, or \<^verbatim>\<open>NaN\<close> where the row has none for the column.\<close>

datatype cell = NaN | Val json

record dataframe =
  columns :: "string list"
  rows :: "dict list"

text \<open>
  The environment. \<open>http_get\<close> answers the \<open>n\<close>-th request of the run, \<open>smtp_server\<close>
  decides the session that starts when \<open>n\<close> transport calls have been made, and
  \<open>to_excel_raises\<close> says whether the \<open>n\<close>-th write of the table fails; so a service may
  answer the same question differently each time. \<open>py_str\<close> is \<^verbatim>\<open>str\<close> on a cell.
  \<open>header_raises\<close> and \<open>set_content_raises\<close> are the checks of \<^verbatim>\<open>EmailMessage\<close>: whether it
  refuses a value for a header (as it does for a value of several lines) and whether it
  fails to encode a body.
\<close>

record env =
  http_get :: "nat \<Rightarrow> string \<Rightarrow> http_outcome"
  smtp_server :: "nat \<Rightarrow> email \<Rightarrow> smtp_outcome"
  read_csv :: "string \<Rightarrow> py_error + dataframe"
  read_text :: "string \<Rightarrow> py_error + string"
  to_excel_raises :: "nat \<Rightarrow> bool"
  py_str :: "cell \<Rightarrow> string"
  header_raises :: "string \<Rightarrow> string \<Rightarrow> bool"
  set_content_raises :: "string \<Rightarrow> bool"

record world =
  http_log :: "string list"
  smtp_log :: "smtp_event list"
  err_log :: "py_error list"
  excel_log :: "(string \<times> dataframe) list"

definition logger_error :: "py_error \<Rightarrow> world \<Rightarrow> world" where
  "logger_error e w = w\<lparr>err_log := err_log w @ [e]\<rparr>"

section \<open>CEPService\<close>

definition raise_for_status :: "nat \<Rightarrow> py_error + unit" where
  "raise_for_status code =
     (if 400 \<le> code \<and> code < 600 then Inl (HTTPError code) else Inr ())"

text \<open>\<^verbatim>\<open>'erro' in resposta\<close>, for each kind of decoded value.\<close>

fun contains_erro :: "json \<Rightarrow> py_error + bool" where
  "contains_erro (JObj d) = Inr (''erro'' \<in> fst ` set d)"
| "contains_erro (JArr xs) = Inr (JStr ''erro'' \<in> set xs)"
| "contains_erro (JStr s) = Inr (sublist ''erro'' s)"
| "contains_erro _ = Inl TypeError"

text \<open>\<^verbatim>\<open>resposta.get('cep')\<close>: only an object has the method.\<close>

fun get_cep :: "json \<Rightarrow> py_error + json" where
  "get_cep (JObj d) = Inr (dict_get d ''cep'')"
| "get_cep _ = Inl AttributeError"

text \<open>\<^verbatim>\<open>resposta['status'] = 'Sucesso'; return resposta\<close>.\<close>

fun mark_sucesso :: "json \<Rightarrow> py_error + dict" where
  "mark_sucesso (JObj d) = Inr (AList.update ''status'' (JStr ''Sucesso'') d)"
| "mark_sucesso _ = Inl TypeError"

text \<open>The body of the \<^verbatim>\<open>try\<close> of \<^verbatim>\<open>_realizar_consulta\<close>, from the answer to the request on.\<close>

definition consulta_try :: "http_outcome \<Rightarrow> string \<Rightarrow> py_error + dict" where
  "consulta_try requisicao cep =
     (case requisicao of
        NoResponse \<Rightarrow> Inl RequestException
      | Response code body \<Rightarrow>
          (case raise_for_status code of
             Inl e \<Rightarrow> Inl e
           | Inr _ \<Rightarrow>
               (case body of
                  None \<Rightarrow> Inl JSONDecodeError
                | Some resposta \<Rightarrow>
                    (case contains_erro resposta of
                       Inl e \<Rightarrow> Inl e
                     | Inr True \<Rightarrow> Inl (ValueError (CepNaoEncontrado cep))
                     | Inr False \<Rightarrow>
                         (case get_cep resposta of
                            Inl e \<Rightarrow> Inl e
                          | Inr v \<Rightarrow>
                              if \<not> truthy v then Inl (ValueError (CepNaoEncontrado cep))
                              else mark_sucesso resposta)))))"

definition realizar_consulta :: "env \<Rightarrow> string \<Rightarrow> string \<Rightarrow> world \<Rightarrow> dict \<times> world" where
  "realizar_consulta ev link cep w =
     (let requisicao = http_get ev (length (http_log w)) link;
          w1 = w\<lparr>http_log := http_log w @ [link]\<rparr>
      in case consulta_try requisicao cep of
           Inr resposta \<Rightarrow> (resposta, w1)
         | Inl e \<Rightarrow> ([(''cep'', JStr cep), (''status'', JStr ''Erro'')], logger_error e w1))"

definition viacep_link :: "string \<Rightarrow> string" where
  "viacep_link cep = ''https://viacep.com.br/ws/'' @ cep @ ''/json/''"

definition opencep_link :: "string \<Rightarrow> string" where
  "opencep_link cep = ''https://api.opencep.com/v1/'' @ cep"

definition consultar_cep_viacep :: "env \<Rightarrow> string \<Rightarrow> world \<Rightarrow> dict \<times> world" where
  "consultar_cep_viacep ev cep w = realizar_consulta ev (viacep_link cep) cep w"

definition consultar_cep_opencep :: "env \<Rightarrow> string \<Rightarrow> world \<Rightarrow> dict \<times> world" where
  "consultar_cep_opencep ev cep w = realizar_consulta ev (opencep_link cep) cep w"

text \<open>\<^verbatim>\<open>cep.replace("-", "").strip()\<close>\<close>

definition normalizar :: "string \<Rightarrow> string" where
  "normalizar cep = strip (py_replace ''-'' [] cep)"

text \<open>\<^verbatim>\<open>resposta['status']\<close> raises \<^verbatim>\<open>KeyError\<close> on a dictionary without the key.\<close>

definition consultar_cep :: "env \<Rightarrow> string \<Rightarrow> world \<Rightarrow> (py_error + dict) \<times> world" where
  "consultar_cep ev entrada w =
     (let cep = normalizar entrada;
          (resposta, w1) = consultar_cep_viacep ev cep w
      in case map_of resposta ''status'' of
           None \<Rightarrow> (Inl (KeyError ''status''), w1)
         | Some s \<Rightarrow>
             if s = JStr ''Erro'' then
               (let (resposta2, w2) = consultar_cep_opencep ev cep w1 in (Inr resposta2, w2))
             else (Inr resposta, w1))"

section \<open>The table of results\<close>

text \<open>
  \<^verbatim>\<open>pd.DataFrame(dados_completos)\<close>: one row per dictionary, the columns are the keys
  in the order of their first appearance, and a row has \<^verbatim>\<open>NaN\<close> in the columns it has
  no key for. The rows carry the default index \<open>0, 1, ...\<close>, so a label is a position.
\<close>

definition DataFrame :: "dict list \<Rightarrow> dataframe" where
  "DataFrame ds =
     \<lparr>columns = fold (\<lambda>k acc. if k \<in> set acc then acc else acc @ [k])
                     (concat (map (map fst) ds)) [],
      rows = ds\<rparr>"

text \<open>\<^verbatim>\<open>df[c] = v\<close> with a scalar \<open>v\<close>.\<close>

definition set_column :: "string \<Rightarrow> json \<Rightarrow> dataframe \<Rightarrow> dataframe" where
  "set_column c v df =
     \<lparr>columns = (if c \<in> set (columns df) then columns df else columns df @ [c]),
      rows = map (AList.update c v) (rows df)\<rparr>"

text \<open>
  \<^verbatim>\<open>df.at[i, c] = v\<close>. The program takes \<open>i\<close> from \<^verbatim>\<open>iterrows\<close> on the same table,
  so it is the label of an existing row.
\<close>

definition at_set :: "nat \<Rightarrow> string \<Rightarrow> json \<Rightarrow> dataframe \<Rightarrow> dataframe" where
  "at_set i c v df =
     \<lparr>columns = (if c \<in> set (columns df) then columns df else columns df @ [c]),
      rows = (rows df)[i := AList.update c v (rows df ! i)]\<rparr>"

text \<open>\<^verbatim>\<open>row[c]\<close> on the row \<open>i\<close> that \<^verbatim>\<open>iterrows\<close> yields.\<close>

definition series_get :: "dataframe \<Rightarrow> nat \<Rightarrow> string \<Rightarrow> py_error + cell" where
  "series_get df i c =
     (if c \<notin> set (columns df) then Inl (KeyError c)
      else case map_of (rows df ! i) c of None \<Rightarrow> Inr NaN | Some v \<Rightarrow> Inr (Val v))"

text \<open>The cells of \<^verbatim>\<open>df[c]\<close>, top down.\<close>

definition column_cells :: "dataframe \<Rightarrow> string \<Rightarrow> cell list" where
  "column_cells df c =
     map (\<lambda>r. case map_of r c of None \<Rightarrow> NaN | Some v \<Rightarrow> Val v) (rows df)"

definition df_empty :: "dataframe \<Rightarrow> bool" where
  "df_empty df = (rows df = [] \<or> columns df = [])"

definition to_excel ::
  "env \<Rightarrow> dataframe \<Rightarrow> string \<Rightarrow> world \<Rightarrow> (py_error + unit) \<times> world" where
  "to_excel ev df file w =
     (if to_excel_raises ev (length (excel_log w)) then (Inl OSError, w)
      else (Inr (), w\<lparr>excel_log := excel_log w @ [(file, df)]\<rparr>))"

section \<open>CEPProcessor\<close>

text \<open>The loop \<^verbatim>\<open>for cep in df['CEP']\<close>, appending to \<open>dados_completos\<close>.\<close>

fun consultar_todos ::
  "env \<Rightarrow> cell list \<Rightarrow> dict list \<Rightarrow> world \<Rightarrow> (py_error + dict list) \<times> world" where
  "consultar_todos ev [] dados_completos w = (Inr dados_completos, w)"
| "consultar_todos ev (cep # ceps) dados_completos w =
     (case consultar_cep ev (py_str ev cep) w of
        (Inl e, w1) \<Rightarrow> (Inl e, w1)
      | (Inr dados, w1) \<Rightarrow> consultar_todos ev ceps (dados_completos @ [dados]) w1)"

definition process_try ::
  "env \<Rightarrow> string \<Rightarrow> string \<Rightarrow> world \<Rightarrow> (py_error + dataframe) \<times> world" where
  "process_try ev input_file output_file w =
     (case read_csv ev input_file of
        Inl e \<Rightarrow> (Inl e, w)
      | Inr df \<Rightarrow>
          if ''CEP'' \<notin> set (columns df) then (Inl (ValueError SemColunaCEP), w)
          else
            (case consultar_todos ev (column_cells df ''CEP'') [] w of
               (Inl e, w1) \<Rightarrow> (Inl e, w1)
             | (Inr dados_completos, w1) \<Rightarrow>
                 (let df_resultados = set_column ''EMAIL'' (JStr []) (DataFrame dados_completos)
                  in case to_excel ev df_resultados output_file w1 of
                       (Inl e, w2) \<Rightarrow> (Inl e, w2)
                     | (Inr _, w2) \<Rightarrow> (Inr df_resultados, w2))))"

text \<open>
  Each of the three \<^verbatim>\<open>except\<close> clauses of \<^verbatim>\<open>process\<close> hands the error to
  \<^verbatim>\<open>logger.error\<close> and falls through, so that the method returns \<^verbatim>\<open>None\<close>.
\<close>

definition process ::
  "env \<Rightarrow> string \<Rightarrow> string \<Rightarrow> world \<Rightarrow> dataframe option \<times> world" where
  "process ev input_file output_file w =
     (case process_try ev input_file output_file w of
        (Inr df_resultados, w1) \<Rightarrow> (Some df_resultados, w1)
      | (Inl e, w1) \<Rightarrow> (None, logger_error e w1))"

section \<open>EmailSender\<close>

text \<open>
  The state of \<^verbatim>\<open>send_emails\<close> while it runs: the table it updates in place, the local
  variable \<open>msg\<close> (\<open>None\<close> as long as nothing has been assigned to it) and the world.
\<close>

record sender =
  dados_ceps :: dataframe
  msg :: "email option"
  mundo :: world

text \<open>The template with its five placeholders replaced, in the order of the source.\<close>

definition corpo_email :: "env \<Rightarrow> dataframe \<Rightarrow> nat \<Rightarrow> string \<Rightarrow> py_error + string" where
  "corpo_email ev df i corpo_template =
     (case series_get df i ''cep'' of Inl e \<Rightarrow> Inl e | Inr cep \<Rightarrow>
     (case series_get df i ''logradouro'' of Inl e \<Rightarrow> Inl e | Inr logradouro \<Rightarrow>
     (case series_get df i ''bairro'' of Inl e \<Rightarrow> Inl e | Inr bairro \<Rightarrow>
     (case series_get df i ''localidade'' of Inl e \<Rightarrow> Inl e | Inr localidade \<Rightarrow>
     (case series_get df i ''uf'' of Inl e \<Rightarrow> Inl e | Inr uf \<Rightarrow>
        Inr (py_replace ''${estado}'' (py_str ev uf)
            (py_replace ''${cidade}'' (py_str ev localidade)
            (py_replace ''${bairro}'' (py_str ev bairro)
            (py_replace ''${logradouro}'' (py_str ev logradouro)
            (py_replace ''${cep}'' (py_str ev cep) corpo_template))))))))))"

text \<open>
  One \<^verbatim>\<open>with smtplib.SMTP('smtp.gmail.com', 587) as smtp\<close> block. The calls attempted are
  logged; once the connection stands, leaving the block sends \<^verbatim>\<open>QUIT\<close>.
\<close>

definition smtp_session ::
  "env \<Rightarrow> string \<Rightarrow> string \<Rightarrow> email \<Rightarrow> world \<Rightarrow> (py_error + unit) \<times> world" where
  "smtp_session ev email_de email_senha m w =
     (let called = (\<lambda>evs. w\<lparr>smtp_log := smtp_log w @ evs\<rparr>);
          c = SmtpConnect ''smtp.gmail.com'' 587;
          l = SmtpLogin email_de email_senha
      in case smtp_server ev (length (smtp_log w)) m of
           RaisesAt Connect \<Rightarrow> (Inl (SMTPException Connect), called [c])
         | RaisesAt Starttls \<Rightarrow>
             (Inl (SMTPException Starttls), called [c, SmtpStarttls, SmtpQuit])
         | RaisesAt Login \<Rightarrow>
             (Inl (SMTPException Login), called [c, SmtpStarttls, l, SmtpQuit])
         | RaisesAt SendMessage \<Rightarrow>
             (Inl (SMTPException SendMessage), called [c, SmtpStarttls, l, SmtpSend m, SmtpQuit])
         | RaisesAt Quit \<Rightarrow>
             (Inl (SMTPException Quit), called [c, SmtpStarttls, l, SmtpSend m, SmtpQuit])
         | Delivered \<Rightarrow> (Inr (), called [c, SmtpStarttls, l, SmtpSend m, SmtpQuit]))"

text \<open>The subject \<^verbatim>\<open>Informa\<close>\<open>...\<close>\<^verbatim>\<open>es para o CEP\<close>, its two accented letters by code point.\<close>

definition assunto :: "string \<Rightarrow> string" where
  "assunto cep =
     ''Informa'' @ [CHR 0xE7, CHR 0xF5] @ ''es para o CEP '' @ cep"

definition destinatario :: string where
  "destinatario = ''seu_gmail_que_vai_receber_aqui@hotmail.com''"

text \<open>
  The statements from \<^verbatim>\<open>msg = EmailMessage()\<close> to \<^verbatim>\<open>msg.set_content\<close>: the exception
  one of them raises, if any, and the message as far as it was built.
\<close>

definition montar_mensagem ::
  "env \<Rightarrow> string \<Rightarrow> dataframe \<Rightarrow> nat \<Rightarrow> string \<Rightarrow> (py_error + unit) \<times> email" where
  "montar_mensagem ev email_de df i corpo =
     (let m0 = \<lparr>msg_from = [], msg_to = [], msg_subject = [], msg_content = []\<rparr> in
      if header_raises ev ''From'' email_de
      then (Inl (ValueError (CabecalhoRecusado ''From'')), m0)
      else
        (let m1 = m0\<lparr>msg_from := email_de\<rparr> in
         if header_raises ev ''To'' destinatario
         then (Inl (ValueError (CabecalhoRecusado ''To'')), m1)
         else
           (let m2 = m1\<lparr>msg_to := destinatario\<rparr> in
            case series_get df i ''cep'' of
              Inl e \<Rightarrow> (Inl e, m2)
            | Inr cep \<Rightarrow>
                if header_raises ev ''Subject'' (assunto (py_str ev cep))
                then (Inl (ValueError (CabecalhoRecusado ''Subject'')), m2)
                else
                  (let m3 = m2\<lparr>msg_subject := assunto (py_str ev cep)\<rparr> in
                   if set_content_raises ev corpo then (Inl UnicodeEncodeError, m3)
                   else (Inr (), m3\<lparr>msg_content := corpo\<rparr>)))))"

text \<open>The body of the \<^verbatim>\<open>try\<close> of one iteration.\<close>

definition enviar_try ::
  "env \<Rightarrow> string \<Rightarrow> string \<Rightarrow> string \<Rightarrow> nat \<Rightarrow> sender \<Rightarrow> (py_error + unit) \<times> sender" where
  "enviar_try ev email_senha corpo_template email_de i s =
     (case corpo_email ev (dados_ceps s) i corpo_template of
        Inl e \<Rightarrow> (Inl e, s)
      | Inr corpo \<Rightarrow>
          (case montar_mensagem ev email_de (dados_ceps s) i corpo of
             (Inl e, m) \<Rightarrow> (Inl e, s\<lparr>msg := Some m\<rparr>)
           | (Inr _, m) \<Rightarrow>
               (case smtp_session ev email_de email_senha m (mundo s) of
                  (Inl e, w1) \<Rightarrow> (Inl e, s\<lparr>msg := Some m, mundo := w1\<rparr>)
                | (Inr _, w1) \<Rightarrow>
                    (Inr (), s\<lparr>dados_ceps :=
                                 at_set i ''EMAIL'' (JStr ''Sucesso'') (dados_ceps s),
                               msg := Some m, mundo := w1\<rparr>))))"

text \<open>
  One iteration of the loop over the rows. The \<^verbatim>\<open>except\<close> clause builds its message
  from \<^verbatim>\<open>msg['To']\<close> and \<^verbatim>\<open>cep['cep']\<close> before it does anything else, and so does the
  \<^verbatim>\<open>else\<close> branch from \<^verbatim>\<open>cep['cep']\<close>; reading a local variable that has no value
  raises, and so does reading a column the table does not have. \<open>Some e\<close> in the result
  is an exception leaving the iteration.
\<close>

definition enviar_linha ::
  "env \<Rightarrow> string \<Rightarrow> string \<Rightarrow> string \<Rightarrow> nat \<Rightarrow> sender \<Rightarrow> py_error option \<times> sender" where
  "enviar_linha ev email_senha corpo_template email_de i s =
     (case series_get (dados_ceps s) i ''status'' of
        Inl e \<Rightarrow> (Some e, s)
      | Inr status \<Rightarrow>
          if status = Val (JStr ''Sucesso'') then
            (case enviar_try ev email_senha corpo_template email_de i s of
               (Inr _, s1) \<Rightarrow> (None, s1)
             | (Inl e, s1) \<Rightarrow>
                 (case msg s1 of
                    None \<Rightarrow> (Some (UnboundLocalError ''msg''), s1)
                  | Some m \<Rightarrow>
                      (case series_get (dados_ceps s1) i ''cep'' of
                         Inl e2 \<Rightarrow> (Some e2, s1)
                       | Inr cep \<Rightarrow>
                           (None, s1\<lparr>dados_ceps :=
                                        at_set i ''EMAIL'' (JStr ''Erro'') (dados_ceps s1),
                                      mundo := logger_error e (mundo s1)\<rparr>))))
          else
            (case series_get (dados_ceps s) i ''cep'' of
               Inl e \<Rightarrow> (Some e, s)
             | Inr cep \<Rightarrow>
                 (None, s\<lparr>dados_ceps := at_set i ''EMAIL'' (JStr ''Erro'') (dados_ceps s)\<rparr>)))"

fun enviar_loop ::
  "env \<Rightarrow> string \<Rightarrow> string \<Rightarrow> string \<Rightarrow> nat list \<Rightarrow> sender \<Rightarrow> py_error option \<times> sender" where
  "enviar_loop ev email_senha corpo_template email_de [] s = (None, s)"
| "enviar_loop ev email_senha corpo_template email_de (i # is) s =
     (case enviar_linha ev email_senha corpo_template email_de i s of
        (Some e, s1) \<Rightarrow> (Some e, s1)
      | (None, s1) \<Rightarrow> enviar_loop ev email_senha corpo_template email_de is s1)"

text \<open>
  \<^verbatim>\<open>send_emails\<close> returns nothing; the result here is the exception that leaves it, if
  any, with the table as the caller finds it and the world.
\<close>

definition send_emails ::
  "env \<Rightarrow> dataframe \<Rightarrow> string \<Rightarrow> string \<Rightarrow> string \<Rightarrow> string \<Rightarrow> world
     \<Rightarrow> py_error option \<times> dataframe \<times> world" where
  "send_emails ev dados email_senha corpo_template email_de output_file w =
     (case enviar_loop ev email_senha corpo_template email_de [0..<length (rows dados)]
             \<lparr>dados_ceps = dados, msg = None, mundo = w\<rparr> of
        (Some e, s) \<Rightarrow> (Some e, dados_ceps s, mundo s)
      | (None, s) \<Rightarrow>
          (case to_excel ev (dados_ceps s) output_file (mundo s) of
             (Inl e, w1) \<Rightarrow> (Some e, dados_ceps s, w1)
           | (Inr _, w1) \<Rightarrow> (None, dados_ceps s, w1)))"

section \<open>The report and the main function\<close>

record relatorio =
  linhas :: "string list"
  total_consultas_sucesso :: nat
  total_consultas_erro :: nat
  total_emails_sucesso :: nat
  total_emails_erro :: nat

text \<open>\<^verbatim>\<open>(dados_ceps[c] == alvo).sum()\<close>\<close>

definition conta :: "dataframe \<Rightarrow> string \<Rightarrow> string \<Rightarrow> py_error + nat" where
  "conta df c alvo =
     (if c \<notin> set (columns df) then Inl (KeyError c)
      else Inr (sum_list (map (\<lambda>x. if x = Val (JStr alvo) then 1 else 0) (column_cells df c))))"

text \<open>One line of the report per row.\<close>

fun linhas_relatorio :: "env \<Rightarrow> dataframe \<Rightarrow> nat list \<Rightarrow> py_error + string list" where
  "linhas_relatorio ev df [] = Inr []"
| "linhas_relatorio ev df (i # is) =
     (case series_get df i ''cep'' of Inl e \<Rightarrow> Inl e | Inr cep \<Rightarrow>
     (case series_get df i ''status'' of Inl e \<Rightarrow> Inl e | Inr status \<Rightarrow>
     (case series_get df i ''EMAIL'' of Inl e \<Rightarrow> Inl e | Inr email \<Rightarrow>
     (case linhas_relatorio ev df is of Inl e \<Rightarrow> Inl e | Inr ls \<Rightarrow>
        Inr ((''CEP: '' @ py_str ev cep @ '', STATUS: '' @ py_str ev status
              @ '', EMAIL: '' @ py_str ev email) # ls)))))"

definition gerar_relatorio_pdf :: "env \<Rightarrow> dataframe \<Rightarrow> py_error + relatorio" where
  "gerar_relatorio_pdf ev df =
     (case linhas_relatorio ev df [0..<length (rows df)] of Inl e \<Rightarrow> Inl e | Inr ls \<Rightarrow>
     (case conta df ''status'' ''Sucesso'' of Inl e \<Rightarrow> Inl e | Inr cs \<Rightarrow>
     (case conta df ''status'' ''Erro'' of Inl e \<Rightarrow> Inl e | Inr ce \<Rightarrow>
     (case conta df ''EMAIL'' ''Sucesso'' of Inl e \<Rightarrow> Inl e | Inr es \<Rightarrow>
     (case conta df ''EMAIL'' ''Erro'' of Inl e \<Rightarrow> Inl e | Inr ee \<Rightarrow>
        Inr \<lparr>linhas = ls, total_consultas_sucesso = cs, total_consultas_erro = ce,
             total_emails_sucesso = es, total_emails_erro = ee\<rparr>)))))"

text \<open>
  The \<^verbatim>\<open>try\<close> of \<^verbatim>\<open>main\<close>. \<^verbatim>\<open>result_df.empty\<close> on the \<^verbatim>\<open>None\<close> that \<^verbatim>\<open>process\<close>
  returns after an error raises \<^verbatim>\<open>AttributeError\<close>. The result \<open>Inr None\<close> is the early
  return on an empty table, \<open>Inr (Some r)\<close> a run that wrote the report \<open>r\<close>.
\<close>

definition main_try :: "env \<Rightarrow> world \<Rightarrow> (py_error + relatorio option) \<times> world" where
  "main_try ev w =
     (case process ev ''ceps_lista_30.csv'' ''dados_ceps_completos.xlsx'' w of
        (None, w1) \<Rightarrow> (Inl AttributeError, w1)
      | (Some result_df, w1) \<Rightarrow>
          if df_empty result_df then (Inr None, w1)
          else
            (case read_text ev ''pass.txt'' of Inl e \<Rightarrow> (Inl e, w1) | Inr senha \<Rightarrow>
            (case read_text ev ''email_modelo.html'' of Inl e \<Rightarrow> (Inl e, w1)
             | Inr corpo_template \<Rightarrow>
            (case send_emails ev result_df (strip senha) corpo_template
                    ''seu_GMAIL_aqui@gmail.com'' ''dados_ceps_completos.xlsx'' w1 of
               (Some e, df, w2) \<Rightarrow> (Inl e, w2)
             | (None, df, w2) \<Rightarrow>
                 (case gerar_relatorio_pdf ev df of
                    Inl e \<Rightarrow> (Inl e, w2)
                  | Inr r \<Rightarrow> (Inr (Some r), w2))))))"

definition main :: "env \<Rightarrow> world \<Rightarrow> (py_error + relatorio option) \<times> world" where
  "main ev w =
     (case main_try ev w of
        (Inl e, w1) \<Rightarrow> (Inl e, logger_error e w1)
      | (Inr r, w1) \<Rightarrow> (Inr r, w1))"

section \<open>Classification of an answer\<close>

text \<open>
  The answers for which \<^verbatim>\<open>_realizar_consulta\<close> returns the decoded body: the request
  came back with a status outside 400..599, the body is an object without the key
  \<^verbatim>\<open>erro\<close>, and its \<^verbatim>\<open>cep\<close> is a true value.
\<close>

definition resolvido :: "http_outcome \<Rightarrow> bool" where
  "resolvido r =
     (case r of
        Response code (Some (JObj d)) \<Rightarrow>
          \<not> (400 \<le> code \<and> code < 600) \<and> ''erro'' \<notin> fst ` set d \<and> truthy (dict_get d ''cep'')
      | _ \<Rightarrow> False)"

text \<open>The decoded object of an answer, and the two dictionaries a query can return.\<close>

definition corpo_da_resposta :: "http_outcome \<Rightarrow> dict" where
  "corpo_da_resposta r = (case r of Response code (Some (JObj d)) \<Rightarrow> d | _ \<Rightarrow> [])"

definition sucesso :: "dict \<Rightarrow> dict" where
  "sucesso d = AList.update ''status'' (JStr ''Sucesso'') d"

definition registro_erro :: "string \<Rightarrow> dict" where
  "registro_erro cep = [(''cep'', JStr cep), (''status'', JStr ''Erro'')]"

text \<open>The address attributes that \<^verbatim>\<open>send_emails\<close> reads from every resolved row.\<close>

definition atributos_endereco :: "string list" where
  "atributos_endereco = [''logradouro'', ''bairro'', ''localidade'', ''uf'']"

section \<open>A small run\<close>

text \<open>
  An environment for the examples: the two services answer by link, the mail relay
  always behaves the same way, the input file has one column \<^verbatim>\<open>CEP\<close> with the given
  codes, the password file holds a word and a line end, every other text file holds the
  template, a header value is refused when it holds a line feed, and \<open>str_exemplo\<close> is
  \<^verbatim>\<open>str\<close> on the cells that occur, which hold strings.
\<close>

definition str_exemplo :: "cell \<Rightarrow> string" where
  "str_exemplo x = (case x of Val (JStr s) \<Rightarrow> s | Val JNull \<Rightarrow> ''None'' | _ \<Rightarrow> ''nan'')"

definition mundo_inicial :: world where
  "mundo_inicial = \<lparr>http_log = [], smtp_log = [], err_log = [], excel_log = []\<rparr>"

definition ev_exemplo :: "(string \<times> http_outcome) list \<Rightarrow> smtp_outcome \<Rightarrow> string list \<Rightarrow> env" where
  "ev_exemplo servicos envio ceps =
     \<lparr>http_get = (\<lambda>n link. case map_of servicos link of None \<Rightarrow> NoResponse | Some r \<Rightarrow> r),
      smtp_server = (\<lambda>n m. envio),
      read_csv = (\<lambda>f. Inr \<lparr>columns = [''CEP''], rows = map (\<lambda>c. [(''CEP'', JStr c)]) ceps\<rparr>),
      read_text = (\<lambda>f. Inr (if f = ''pass.txt'' then ''senha'' @ [CHR 0x0A]
                              else ''CEP ${cep} - ${cidade}/${estado}'')),
      to_excel_raises = (\<lambda>n. False),
      py_str = str_exemplo,
      header_raises = (\<lambda>name value. CHR 0x0A \<in> set value),
      set_content_raises = (\<lambda>texto. False)\<rparr>"

definition endereco_se :: dict where
  "endereco_se =
     [(''cep'', JStr ''01001-000''), (''logradouro'', JStr ''Praca da Se''),
      (''bairro'', JStr ''Se''), (''localidade'', JStr ''Sao Paulo''), (''uf'', JStr ''SP'')]"

definition servicos_exemplo :: "(string \<times> http_outcome) list" where
  "servicos_exemplo =
     [(viacep_link ''01001000'', Response 200 (Some (JObj endereco_se))),
      (viacep_link ''20040020'', Response 200 (Some (JObj [(''erro'', JBool True)]))),
      (opencep_link ''20040020'', Response 200 (Some (JObj [(''cep'', JStr ''20040-020'')]))),
      (viacep_link ''00000000'', Response 400 None),
      (opencep_link ''00000000'', Response 404 (Some (JObj [(''error'', JStr ''not found'')])))]"

text \<open>
  The table that \<^verbatim>\<open>process\<close> builds for the codes \<^verbatim>\<open>01001-000\<close> and \<^verbatim>\<open>00000-000\<close> in this
  environment, the message and the mail session for its resolved row, and the table
  after the messages were handled.
\<close>

definition tabela_exemplo :: dataframe where
  "tabela_exemplo =
     \<lparr>columns = [''cep'', ''logradouro'', ''bairro'', ''localidade'', ''uf'', ''status'', ''EMAIL''],
      rows = [endereco_se @ [(''status'', JStr ''Sucesso''), (''EMAIL'', JStr [])],
              [(''cep'', JStr ''00000000''), (''status'', JStr ''Erro''), (''EMAIL'', JStr [])]]\<rparr>"

definition mensagem_exemplo :: email where
  "mensagem_exemplo =
     \<lparr>msg_from = ''remetente@gmail.com'',
      msg_to = destinatario,
      msg_subject = assunto ''01001-000'',
      msg_content = ''CEP 01001-000 - Sao Paulo/SP''\<rparr>"

definition sessao_exemplo :: "smtp_event list" where
  "sessao_exemplo =
     [SmtpConnect ''smtp.gmail.com'' 587, SmtpStarttls,
      SmtpLogin ''remetente@gmail.com'' ''senha'', SmtpSend mensagem_exemplo, SmtpQuit]"

definition tabela_enviada :: "string \<Rightarrow> dataframe" where
  "tabela_enviada email =
     \<lparr>columns = [''cep'', ''logradouro'', ''bairro'', ''localidade'', ''uf'', ''status'', ''EMAIL''],
      rows = [endereco_se @ [(''status'', JStr ''Sucesso''), (''EMAIL'', JStr email)],
              [(''cep'', JStr ''00000000''), (''status'', JStr ''Erro''), (''EMAIL'', JStr ''Erro'')]]\<rparr>"

section \<open>Notions for the properties of the sender\<close>

text \<open>Two tables that agree on everything but the column \<^verbatim>\<open>EMAIL\<close>.\<close>

definition igual_fora_de_email :: "dataframe \<Rightarrow> dataframe \<Rightarrow> bool" where
  "igual_fora_de_email df df' =
     (length (rows df') = length (rows df) \<and>
      (\<forall>c. c \<noteq> ''EMAIL'' \<longrightarrow> (c \<in> set (columns df') \<longleftrightarrow> c \<in> set (columns df))) \<and>
      (\<forall>i < length (rows df). \<forall>c. c \<noteq> ''EMAIL'' \<longrightarrow>
           map_of (rows df' ! i) c = map_of (rows df ! i) c))"

text \<open>The number of mail sessions started so far: each starts with the connection.\<close>

fun abre_sessao :: "smtp_event \<Rightarrow> bool" where
  "abre_sessao (SmtpConnect host port) = True"
| "abre_sessao _ = False"

definition sessoes :: "world \<Rightarrow> nat" where
  "sessoes w = length (filter abre_sessao (smtp_log w))"

text \<open>The columns the template is filled from.\<close>

definition tem_colunas_do_email :: "dataframe \<Rightarrow> bool" where
  "tem_colunas_do_email df =
     (set [''cep'', ''logradouro'', ''bairro'', ''localidade'', ''uf''] \<subseteq> set (columns df))"

text \<open>
  The message for row \<open>i\<close> can be built: the template can be filled and \<^verbatim>\<open>EmailMessage\<close>
  takes the headers and the body.
\<close>

definition mensagem_aceita :: "env \<Rightarrow> string \<Rightarrow> string \<Rightarrow> dataframe \<Rightarrow> nat \<Rightarrow> bool" where
  "mensagem_aceita ev corpo_template email_de df i =
     (case corpo_email ev df i corpo_template of
        Inl e \<Rightarrow> False
      | Inr texto \<Rightarrow>
          (case montar_mensagem ev email_de df i texto of
             (Inl e, m) \<Rightarrow> False
           | (Inr u, m) \<Rightarrow> True))"

text \<open>
  The attempt for row \<open>i\<close>: the answer of the mail relay to the message of the row, asked
  when the mail log holds \<open>n\<close> entries, or \<open>None\<close> when the message cannot be built and
  the relay is not asked. \<open>chamadas\<close> is the number of entries a session with a given
  answer adds to the log, and \<open>registro_antes\<close> the length of the log when the turn of
  row \<open>i\<close> comes, in a run over the table that starts with \<open>n0\<close> entries and raises
  nothing.
\<close>

definition tentativa ::
  "env \<Rightarrow> string \<Rightarrow> string \<Rightarrow> dataframe \<Rightarrow> nat \<Rightarrow> nat \<Rightarrow> smtp_outcome option" where
  "tentativa ev corpo_template email_de df i n =
     (case corpo_email ev df i corpo_template of
        Inl e \<Rightarrow> None
      | Inr texto \<Rightarrow>
          (case montar_mensagem ev email_de df i texto of
             (Inl e, m) \<Rightarrow> None
           | (Inr u, m) \<Rightarrow> Some (smtp_server ev n m)))"

fun chamadas :: "smtp_outcome \<Rightarrow> nat" where
  "chamadas (RaisesAt Connect) = 1"
| "chamadas (RaisesAt Starttls) = 3"
| "chamadas (RaisesAt Login) = 4"
| "chamadas (RaisesAt SendMessage) = 5"
| "chamadas (RaisesAt Quit) = 5"
| "chamadas Delivered = 5"

fun registro_antes :: "env \<Rightarrow> string \<Rightarrow> string \<Rightarrow> dataframe \<Rightarrow> nat \<Rightarrow> nat \<Rightarrow> nat" where
  "registro_antes ev corpo_template email_de df n0 0 = n0"
| "registro_antes ev corpo_template email_de df n0 (Suc i) =
     (let n = registro_antes ev corpo_template email_de df n0 i in
      if series_get df i ''status'' = Inr (Val (JStr ''Sucesso''))
      then (case tentativa ev corpo_template email_de df i n of
              None \<Rightarrow> n
            | Some r \<Rightarrow> n + chamadas r)
      else n)"

text \<open>
  The world after the messages of the small run were delivered; and the table and the
  world of a run in which the only resolved code came back without an address.
\<close>

definition mundo_enviado :: world where
  "mundo_enviado =
     \<lparr>http_log = [], smtp_log = sessao_exemplo, err_log = [],
      excel_log = [(''dados.xlsx'', tabela_enviada ''Sucesso'')]\<rparr>"

definition tabela_sem_endereco :: dataframe where
  "tabela_sem_endereco =
     \<lparr>columns = [''cep'', ''status'', ''EMAIL''],
      rows = [[(''cep'', JStr ''20040-020''), (''status'', JStr ''Sucesso''), (''EMAIL'', JStr [])],
              [(''cep'', JStr ''00000000''), (''status'', JStr ''Erro''), (''EMAIL'', JStr [])]]\<rparr>"

definition mundo_sem_endereco :: "string \<Rightarrow> world" where
  "mundo_sem_endereco output_file =
     \<lparr>http_log = [viacep_link ''20040020'', opencep_link ''20040020'',
                  viacep_link ''00000000'', opencep_link ''00000000''],
      smtp_log = [],
      err_log = [ValueError (CepNaoEncontrado ''20040020''), HTTPError 400, HTTPError 404],
      excel_log = [(output_file, tabela_sem_endereco)]\<rparr>"

section \<open>Notions for the properties of the table and the report\<close>

text \<open>A record as \<^verbatim>\<open>consultar_cep\<close> returns it: it names its code and has a final status.\<close>

definition registro_valido :: "dict \<Rightarrow> bool" where
  "registro_valido d =
     (''cep'' \<in> fst ` set d \<and>
      (map_of d ''status'' = Some (JStr ''Sucesso'') \<or> map_of d ''status'' = Some (JStr ''Erro'')))"

text \<open>Every cell of a column is \<^verbatim>\<open>Sucesso\<close> or \<^verbatim>\<open>Erro\<close>.\<close>

definition status_terminal :: "dataframe \<Rightarrow> string \<Rightarrow> bool" where
  "status_terminal df c =
     (\<forall>i < length (rows df). series_get df i c = Inr (Val (JStr ''Sucesso'')) \<or>
                              series_get df i c = Inr (Val (JStr ''Erro'')))"

text \<open>The report of the small run.\<close>

definition relatorio_exemplo :: relatorio where
  "relatorio_exemplo =
     \<lparr>linhas = [''CEP: 01001-000, STATUS: Sucesso, EMAIL: Sucesso'',
                ''CEP: 00000000, STATUS: Erro, EMAIL: Erro''],
      total_consultas_sucesso = 1, total_consultas_erro = 1,
      total_emails_sucesso = 1, total_emails_erro = 1\<rparr>"

section \<open>The lookup adapter\<close>

lemma consulta_try_resolvido:
  "resolvido r \<Longrightarrow> consulta_try r cep = Inr (sucesso (corpo_da_resposta r))"
  unfolding resolvido_def consulta_try_def corpo_da_resposta_def sucesso_def raise_for_status_def
  by (auto split: http_outcome.splits option.splits json.splits)

lemma consulta_try_nao_resolvido:
  "\<not> resolvido r \<Longrightarrow> \<exists>e. consulta_try r cep = Inl e"
  unfolding resolvido_def consulta_try_def raise_for_status_def
  by (cases r) (auto split: option.splits json.splits sum.splits bool.splits)

lemma realizar_consulta_fst:
  "fst (realizar_consulta ev link cep w) =
     (if resolvido (http_get ev (length (http_log w)) link)
      then sucesso (corpo_da_resposta (http_get ev (length (http_log w)) link))
      else registro_erro cep)"
  using consulta_try_resolvido[of "http_get ev (length (http_log w)) link" cep]
        consulta_try_nao_resolvido[of "http_get ev (length (http_log w)) link" cep]
  by (auto simp: realizar_consulta_def Let_def registro_erro_def split: sum.splits)

lemma realizar_consulta_logs:
  "http_log (snd (realizar_consulta ev link cep w)) = http_log w @ [link]"
  "smtp_log (snd (realizar_consulta ev link cep w)) = smtp_log w"
  "excel_log (snd (realizar_consulta ev link cep w)) = excel_log w"
  by (auto simp: realizar_consulta_def Let_def logger_error_def split: sum.splits)

lemma status_sucesso: "map_of (sucesso d) ''status'' = Some (JStr ''Sucesso'')"
  by (simp add: sucesso_def update_conv')

lemma status_registro_erro: "map_of (registro_erro cep) ''status'' = Some (JStr ''Erro'')"
  by (simp add: registro_erro_def)


lemma resolvido_iff:
  "resolvido r \<longleftrightarrow>
     (\<exists>code d. r = Response code (Some (JObj d)) \<and> \<not> (400 \<le> code \<and> code < 600)
        \<and> ''erro'' \<notin> fst ` set d \<and> truthy (dict_get d ''cep''))"
  unfolding resolvido_def
  by (auto split: http_outcome.splits option.splits json.splits)

lemma links_distintos: "viacep_link c \<noteq> opencep_link c'"
  by (simp add: viacep_link_def opencep_link_def)

lemma consultar_cep_resolvido:
  assumes "resolvido (http_get ev (length (http_log w)) (viacep_link (normalizar entrada)))"
  shows "consultar_cep ev entrada w =
           (Inr (sucesso (corpo_da_resposta (http_get ev (length (http_log w)) (viacep_link (normalizar entrada))))),
            snd (consultar_cep_viacep ev (normalizar entrada) w))"
proof -
  obtain d w1 where v: "consultar_cep_viacep ev (normalizar entrada) w = (d, w1)"
    by (cases "consultar_cep_viacep ev (normalizar entrada) w")
  have "d = fst (realizar_consulta ev (viacep_link (normalizar entrada)) (normalizar entrada) w)"
    using v by (simp add: consultar_cep_viacep_def)
  with assms have d: "d = sucesso (corpo_da_resposta (http_get ev (length (http_log w)) (viacep_link (normalizar entrada))))"
    by (simp add: realizar_consulta_fst)
  show ?thesis
    unfolding consultar_cep_def Let_def v
    by (simp add: d status_sucesso)
qed

lemma consultar_cep_nao_resolvido:
  assumes "\<not> resolvido (http_get ev (length (http_log w)) (viacep_link (normalizar entrada)))"
  shows "consultar_cep ev entrada w =
           (Inr (fst (consultar_cep_opencep ev (normalizar entrada)
                        (snd (consultar_cep_viacep ev (normalizar entrada) w)))),
            snd (consultar_cep_opencep ev (normalizar entrada)
                   (snd (consultar_cep_viacep ev (normalizar entrada) w))))"
proof -
  obtain d w1 where v: "consultar_cep_viacep ev (normalizar entrada) w = (d, w1)"
    by (cases "consultar_cep_viacep ev (normalizar entrada) w")
  have "d = fst (realizar_consulta ev (viacep_link (normalizar entrada)) (normalizar entrada) w)"
    using v by (simp add: consultar_cep_viacep_def)
  with assms have d: "d = registro_erro (normalizar entrada)"
    by (simp add: realizar_consulta_fst)
  show ?thesis
    unfolding consultar_cep_def Let_def v
    by (simp add: d status_registro_erro split: prod.splits)
qed

lemma normalizar_exemplo: "normalizar '' 20040-020'' = ''20040020''"
  by (simp add: normalizar_def py_replace_def strip_def isspace_def)

lemma http_get_exemplo:
  "http_get (ev_exemplo servicos_exemplo so cs) n (viacep_link ''20040020'') =
     Response 200 (Some (JObj [(''erro'', JBool True)]))"
  "http_get (ev_exemplo servicos_exemplo so cs) n (opencep_link ''20040020'') =
     Response 200 (Some (JObj [(''cep'', JStr ''20040-020'')]))"
  "http_get (ev_exemplo servicos_exemplo so cs) n (viacep_link ''01001000'') =
     Response 200 (Some (JObj endereco_se))"
  by (simp_all add: ev_exemplo_def servicos_exemplo_def viacep_link_def opencep_link_def)

text \<open>
  Claim C7, as amended. The adapter returns the decoded body, marked \<^verbatim>\<open>Sucesso\<close>, exactly
  for the answers that came back with a status outside 400..599 and whose body is an
  object with no key \<^verbatim>\<open>erro\<close> and a true value under \<^verbatim>\<open>cep\<close>; the other address
  attributes are not looked at. Every other answer yields the record of the code with
  status \<^verbatim>\<open>Erro\<close>.
\<close>

theorem realizar_consulta_classifica:
  "let r = http_get ev (length (http_log w)) link;
       resposta = fst (realizar_consulta ev link cep w)
   in (resolvido r \<longrightarrow> resposta = sucesso (corpo_da_resposta r)) \<and>
      (\<not> resolvido r \<longrightarrow> resposta = registro_erro cep) \<and>
      (map_of resposta ''status'' = Some (JStr ''Sucesso'') \<longleftrightarrow> resolvido r)"
  by (simp add: Let_def realizar_consulta_fst status_sucesso status_registro_erro)

theorem realizar_consulta_classifica_witness:
  "fst (realizar_consulta (ev_exemplo servicos_exemplo Delivered []) (viacep_link ''01001000'')
          ''01001000'' mundo_inicial) = endereco_se @ [(''status'', JStr ''Sucesso'')] \<and>
   fst (realizar_consulta (ev_exemplo servicos_exemplo Delivered []) (viacep_link ''20040020'')
          ''20040020'' mundo_inicial) = registro_erro ''20040020''"
  using realizar_consulta_classifica [where ev = "ev_exemplo servicos_exemplo Delivered []"
          and w = mundo_inicial and link = "viacep_link ''01001000''" and cep = "''01001000''"]
        realizar_consulta_classifica [where ev = "ev_exemplo servicos_exemplo Delivered []"
          and w = mundo_inicial and link = "viacep_link ''20040020''" and cep = "''20040020''"]
  by (simp add: Let_def http_get_exemplo resolvido_def corpo_da_resposta_def sucesso_def
      dict_get_def endereco_se_def)

text \<open>
  Claim C7 as written fails: the second service answers the code 20040020 with an object
  that holds nothing but \<^verbatim>\<open>cep\<close>, and the adapter classifies it as resolved although
  street, district, city and region are all missing.
\<close>

theorem realizar_consulta_sucesso_sem_endereco:
  "map_of (fst (realizar_consulta (ev_exemplo servicos_exemplo Delivered [])
                  (opencep_link ''20040020'') ''20040020'' mundo_inicial)) ''status''
     = Some (JStr ''Sucesso'') \<and>
   \<not> set atributos_endereco \<subseteq>
       fst ` set (corpo_da_resposta (http_get (ev_exemplo servicos_exemplo Delivered []) 0
                          (opencep_link ''20040020'')))"
  by (simp add: realizar_consulta_fst http_get_exemplo resolvido_def corpo_da_resposta_def sucesso_def
      dict_get_def atributos_endereco_def)

section \<open>The resolver\<close>

text \<open>
  Claim C1. \<^verbatim>\<open>consultar_cep\<close> asks ViaCEP first and asks OpenCEP, with the same normalised
  code, if and only if the first answer is not resolved; it returns a record whose status
  is \<^verbatim>\<open>Sucesso\<close> iff one of the services asked resolved the code and \<^verbatim>\<open>Erro\<close> otherwise; on
  success the record is the body of the first service that resolved, with the status
  set and nothing taken from the other service.
\<close>

theorem consultar_cep_viacep_depois_opencep:
  "let c = normalizar entrada; n = length (http_log w);
       r1 = http_get ev n (viacep_link c);
       r2 = http_get ev (Suc n) (opencep_link c)
   in \<exists>resposta w'.
        consultar_cep ev entrada w = (Inr resposta, w') \<and>
        http_log w' = http_log w @
          (if resolvido r1 then [viacep_link c] else [viacep_link c, opencep_link c]) \<and>
        (map_of resposta ''status'' = Some (JStr ''Sucesso'') \<longleftrightarrow> resolvido r1 \<or> resolvido r2) \<and>
        (map_of resposta ''status'' = Some (JStr ''Erro'') \<longleftrightarrow> \<not> resolvido r1 \<and> \<not> resolvido r2) \<and>
        (resolvido r1 \<longrightarrow> resposta = sucesso (corpo_da_resposta r1)) \<and>
        (\<not> resolvido r1 \<and> resolvido r2 \<longrightarrow> resposta = sucesso (corpo_da_resposta r2)) \<and>
        (\<not> resolvido r1 \<and> \<not> resolvido r2 \<longrightarrow> resposta = registro_erro c)"
proof (cases "resolvido (http_get ev (length (http_log w)) (viacep_link (normalizar entrada)))")
  case True
  then show ?thesis
    by (simp add: Let_def consultar_cep_resolvido consultar_cep_viacep_def
        realizar_consulta_logs status_sucesso)
next
  case False
  then show ?thesis
    by (simp add: Let_def consultar_cep_nao_resolvido consultar_cep_viacep_def
        consultar_cep_opencep_def realizar_consulta_logs realizar_consulta_fst
        status_sucesso status_registro_erro)
qed

theorem consultar_cep_viacep_depois_opencep_witness:
  "\<exists>w'. consultar_cep (ev_exemplo servicos_exemplo Delivered []) '' 20040-020'' mundo_inicial =
           (Inr [(''cep'', JStr ''20040-020''), (''status'', JStr ''Sucesso'')], w') \<and>
         http_log w' = [viacep_link ''20040020'', opencep_link ''20040020'']"
  using consultar_cep_viacep_depois_opencep [where ev = "ev_exemplo servicos_exemplo Delivered []"
          and entrada = "'' 20040-020''" and w = mundo_inicial]
  by (simp add: Let_def normalizar_exemplo http_get_exemplo resolvido_def corpo_da_resposta_def sucesso_def
      dict_get_def mundo_inicial_def)

text \<open>
  Claim C3. One call of \<^verbatim>\<open>consultar_cep\<close> makes at most two requests, and when ViaCEP
  resolves the code it makes exactly one, to ViaCEP: OpenCEP is not asked.
\<close>

theorem consultar_cep_no_maximo_duas_consultas:
  "let c = normalizar entrada;
       r1 = http_get ev (length (http_log w)) (viacep_link c);
       w' = snd (consultar_cep ev entrada w)
   in length (http_log w') \<le> length (http_log w) + 2 \<and>
      (resolvido r1 \<longrightarrow>
         http_log w' = http_log w @ [viacep_link c] \<and>
         opencep_link c \<notin> set (drop (length (http_log w)) (http_log w')))"
proof (cases "resolvido (http_get ev (length (http_log w)) (viacep_link (normalizar entrada)))")
  case True
  then show ?thesis
    using links_distintos [of "normalizar entrada" "normalizar entrada"]
    by (simp add: Let_def consultar_cep_resolvido consultar_cep_viacep_def
        realizar_consulta_logs)
next
  case False
  then show ?thesis
    by (simp add: Let_def consultar_cep_nao_resolvido consultar_cep_viacep_def
        consultar_cep_opencep_def realizar_consulta_logs)
qed

theorem consultar_cep_no_maximo_duas_consultas_witness:
  "resolvido (http_get (ev_exemplo servicos_exemplo Delivered []) 0 (viacep_link ''01001000'')) \<and>
   http_log (snd (consultar_cep (ev_exemplo servicos_exemplo Delivered []) ''01001-000''
                    mundo_inicial)) = [viacep_link ''01001000'']"
  using consultar_cep_no_maximo_duas_consultas [where ev = "ev_exemplo servicos_exemplo Delivered []"
          and entrada = "''01001-000''" and w = mundo_inicial]
  by (simp add: Let_def normalizar_def py_replace_def strip_def isspace_def http_get_exemplo
      resolvido_def dict_get_def endereco_se_def mundo_inicial_def)

text \<open>
  Claim C4. Whatever the two services do (no answer, an error status, a body that is not
  JSON or not an object, a negative answer), \<^verbatim>\<open>consultar_cep\<close> returns a record and raises
  nothing, and the status of the record is \<^verbatim>\<open>Sucesso\<close> or \<^verbatim>\<open>Erro\<close>, never anything else.
\<close>

theorem consultar_cep_sempre_retorna:
  "\<exists>resposta w'. consultar_cep ev entrada w = (Inr resposta, w') \<and>
     (map_of resposta ''status'' = Some (JStr ''Sucesso'') \<or>
      map_of resposta ''status'' = Some (JStr ''Erro''))"
proof (cases "resolvido (http_get ev (length (http_log w)) (viacep_link (normalizar entrada)))")
  case True
  then show ?thesis
    by (simp add: consultar_cep_resolvido status_sucesso)
next
  case False
  then show ?thesis
    by (simp add: consultar_cep_nao_resolvido consultar_cep_opencep_def
        realizar_consulta_fst status_sucesso status_registro_erro)
qed

section \<open>The sender changes one column\<close>

lemma igual_refl: "igual_fora_de_email df df"
  by (simp add: igual_fora_de_email_def)

lemma igual_trans:
  "igual_fora_de_email a b \<Longrightarrow> igual_fora_de_email b c \<Longrightarrow> igual_fora_de_email a c"
  by (simp add: igual_fora_de_email_def)

lemma map_of_update_outra: "c \<noteq> k \<Longrightarrow> map_of (AList.update k v r) c = map_of r c"
  by (simp add: update_conv')

lemma igual_at_set: "igual_fora_de_email df (at_set i ''EMAIL'' v df)"
  unfolding igual_fora_de_email_def at_set_def
  by (cases "i < length (rows df)") (auto simp: nth_list_update map_of_update_outra)

lemma igual_series_get:
  assumes "igual_fora_de_email df df'" "i < length (rows df)" "c \<noteq> ''EMAIL''"
  shows "series_get df' i c = series_get df i c"
  using assms unfolding igual_fora_de_email_def series_get_def by simp

lemma enviar_try_igual:
  "enviar_try ev senha tpl de i s = (r, s1) \<Longrightarrow>
     igual_fora_de_email (dados_ceps s) (dados_ceps s1)"
  unfolding enviar_try_def Let_def
  by (auto split: sum.splits prod.splits simp: igual_refl igual_at_set)

lemma enviar_linha_igual:
  "enviar_linha ev senha tpl de i s = (exc, s1) \<Longrightarrow>
     igual_fora_de_email (dados_ceps s) (dados_ceps s1)"
  unfolding enviar_linha_def
  by (auto split: sum.splits prod.splits if_splits option.splits
      simp: igual_refl igual_at_set
      dest!: enviar_try_igual intro: igual_trans[OF _ igual_at_set])

lemma enviar_loop_igual:
  "enviar_loop ev senha tpl de idxs s = (exc, s1) \<Longrightarrow>
     igual_fora_de_email (dados_ceps s) (dados_ceps s1)"
proof (induction idxs arbitrary: s)
  case Nil
  then show ?case by (simp add: igual_refl)
next
  case (Cons i idxs)
  obtain e s' where h: "enviar_linha ev senha tpl de i s = (e, s')"
    by (cases "enviar_linha ev senha tpl de i s")
  show ?case
  proof (cases e)
    case None
    with Cons.prems h have "enviar_loop ev senha tpl de idxs s' = (exc, s1)" by simp
    then have "igual_fora_de_email (dados_ceps s') (dados_ceps s1)" by (rule Cons.IH)
    with enviar_linha_igual[OF h] show ?thesis by (rule igual_trans)
  next
    case (Some a)
    with Cons.prems h have "s1 = s'" by simp
    with enviar_linha_igual[OF h] show ?thesis by simp
  qed
qed

lemma send_emails_igual:
  "send_emails ev df senha tpl de out w = (exc, df', w') \<Longrightarrow> igual_fora_de_email df df'"
  unfolding send_emails_def to_excel_def
  by (auto split: prod.splits option.splits sum.splits if_splits dest!: enviar_loop_igual)


section \<open>Rows that were not resolved\<close>

lemma series_get_coluna:
  "c \<in> set (columns df) \<Longrightarrow> \<exists>x. series_get df i c = Inr x"
  by (cases "map_of (rows df ! i) c") (simp_all add: series_get_def)

lemma enviar_linha_sem_sucesso:
  assumes "series_get (dados_ceps s) i ''status'' = Inr st" "st \<noteq> Val (JStr ''Sucesso'')"
    "''cep'' \<in> set (columns (dados_ceps s))"
  shows "enviar_linha ev senha tpl de i s =
           (None, s\<lparr>dados_ceps := at_set i ''EMAIL'' (JStr ''Erro'') (dados_ceps s)\<rparr>)"
proof -
  obtain c where "series_get (dados_ceps s) i ''cep'' = Inr c"
    using series_get_coluna[OF assms(3)] by blast
  with assms(1,2) show ?thesis by (simp add: enviar_linha_def)
qed

lemma enviar_linha_sem_cep:
  assumes "''cep'' \<notin> set (columns (dados_ceps s))"
  shows "\<exists>e. enviar_linha ev senha tpl de i s = (Some e, s)"
  using assms
  by (simp add: enviar_linha_def enviar_try_def corpo_email_def series_get_def
      split: option.splits)

lemma series_get_at_set:
  "i < length (rows df) \<Longrightarrow> series_get (at_set i c v df) i c = Inr (Val v)"
  by (simp add: series_get_def at_set_def update_conv')

lemma series_get_at_set_outra:
  "i \<noteq> j \<Longrightarrow> series_get df i c = Inr x \<Longrightarrow> series_get (at_set j c v df) i c = Inr x"
  by (auto simp: series_get_def at_set_def split: if_splits)

lemma enviar_try_outra:
  assumes "enviar_try ev senha tpl de j s = (r, s1)" "i \<noteq> j"
    "series_get (dados_ceps s) i ''EMAIL'' = Inr x"
  shows "series_get (dados_ceps s1) i ''EMAIL'' = Inr x"
  using assms unfolding enviar_try_def Let_def
  by (auto split: sum.splits prod.splits simp: series_get_at_set_outra)

lemma enviar_linha_outra:
  assumes "enviar_linha ev senha tpl de j s = (exc, s1)" "i \<noteq> j"
    "series_get (dados_ceps s) i ''EMAIL'' = Inr x"
  shows "series_get (dados_ceps s1) i ''EMAIL'' = Inr x"
  using assms unfolding enviar_linha_def
  by (auto split: sum.splits prod.splits if_splits option.splits
      simp: series_get_at_set_outra dest: enviar_try_outra)

lemma enviar_loop_outra:
  assumes "enviar_loop ev senha tpl de idxs s = (exc, s1)" "i \<notin> set idxs"
    "series_get (dados_ceps s) i ''EMAIL'' = Inr x"
  shows "series_get (dados_ceps s1) i ''EMAIL'' = Inr x"
  using assms
proof (induction idxs arbitrary: s)
  case Nil
  then show ?case by simp
next
  case (Cons j idxs)
  obtain e s' where h: "enviar_linha ev senha tpl de j s = (e, s')"
    by (cases "enviar_linha ev senha tpl de j s")
  from Cons.prems have ij: "i \<noteq> j" "i \<notin> set idxs" by auto
  have x: "series_get (dados_ceps s') i ''EMAIL'' = Inr x"
    using enviar_linha_outra[OF h ij(1) Cons.prems(3)] .
  show ?case
  proof (cases e)
    case None
    with Cons.prems(1) h have "enviar_loop ev senha tpl de idxs s' = (exc, s1)" by simp
    from Cons.IH[OF this ij(2) x] show ?thesis .
  next
    case (Some a)
    with Cons.prems(1) h have "s1 = s'" by simp
    with x show ?thesis by simp
  qed
qed

lemma series_get_sem_coluna:
  "c \<notin> set (columns df) \<Longrightarrow> series_get df i c = Inl (KeyError c)"
  by (simp add: series_get_def)

lemma enviar_try_falha_tabela:
  "enviar_try ev senha tpl de i s = (Inl x, s') \<Longrightarrow> dados_ceps s' = dados_ceps s"
  unfolding enviar_try_def by (auto split: sum.splits prod.splits)

lemma enviar_linha_excecao:
  assumes "enviar_linha ev senha tpl de i s = (Some e, s1)"
  shows "(e = KeyError ''status'' \<and> ''status'' \<notin> set (columns (dados_ceps s))) \<or>
         (e = KeyError ''cep'' \<and> ''cep'' \<notin> set (columns (dados_ceps s))) \<or>
         (e = UnboundLocalError ''msg'' \<and>
          series_get (dados_ceps s) i ''status'' = Inr (Val (JStr ''Sucesso'')))"
proof (cases "''status'' \<in> set (columns (dados_ceps s))")
  case False
  with assms show ?thesis
    by (simp add: enviar_linha_def series_get_sem_coluna)
next
  case True
  then obtain st where st: "series_get (dados_ceps s) i ''status'' = Inr st"
    using series_get_coluna by blast
  show ?thesis
  proof (cases "st = Val (JStr ''Sucesso'')")
    case False
    show ?thesis
    proof (cases "''cep'' \<in> set (columns (dados_ceps s))")
      case True
      from enviar_linha_sem_sucesso[OF st False True, of ev senha tpl de] assms
      show ?thesis by simp
    next
      case False
      with assms st \<open>st \<noteq> Val (JStr ''Sucesso'')\<close> show ?thesis
        by (simp add: enviar_linha_def series_get_sem_coluna)
    qed
  next
    case True
    obtain r s' where t: "enviar_try ev senha tpl de i s = (r, s')"
      by (cases "enviar_try ev senha tpl de i s")
    show ?thesis
    proof (cases r)
      case (Inr u)
      with assms st True t show ?thesis by (simp add: enviar_linha_def)
    next
      case (Inl x)
      note d = enviar_try_falha_tabela[OF t[unfolded Inl]]
      show ?thesis
      proof (cases "msg s'")
        case None
        with assms st True t Inl show ?thesis by (simp add: enviar_linha_def)
      next
        case (Some m)
        show ?thesis
        proof (cases "''cep'' \<in> set (columns (dados_ceps s))")
          case True
          then obtain c where "series_get (dados_ceps s') i ''cep'' = Inr c"
            using series_get_coluna d by metis
          with assms st \<open>st = Val (JStr ''Sucesso'')\<close> t Inl Some show ?thesis
            by (simp add: enviar_linha_def)
        next
          case False
          then have "series_get (dados_ceps s') i ''cep'' = Inl (KeyError ''cep'')"
            using d by (simp add: series_get_sem_coluna)
          with assms st \<open>st = Val (JStr ''Sucesso'')\<close> t Inl Some False show ?thesis
            by (simp add: enviar_linha_def)
        qed
      qed
    qed
  qed
qed

lemma enviar_loop_sem_sucesso:
  assumes "enviar_loop ev senha tpl de idxs s = (exc, s1)"
    "exc \<noteq> Some (UnboundLocalError ''msg'')"
    "distinct idxs" "i \<in> set idxs" "\<forall>j \<in> set idxs. j < length (rows (dados_ceps s))"
    "series_get (dados_ceps s) i ''status'' = Inr st" "st \<noteq> Val (JStr ''Sucesso'')"
    "''cep'' \<in> set (columns (dados_ceps s))"
  shows "series_get (dados_ceps s1) i ''EMAIL'' = Inr (Val (JStr ''Erro''))"
  using assms
proof (induction idxs arbitrary: s)
  case Nil
  then show ?case by simp
next
  case (Cons j idxs)
  obtain e s' where h: "enviar_linha ev senha tpl de j s = (e, s')"
    by (cases "enviar_linha ev senha tpl de j s")
  have col: "''status'' \<in> set (columns (dados_ceps s))"
    using Cons.prems(6) by (auto simp: series_get_def split: if_splits)
  have e: "e = None"
  proof (cases e)
    case None then show ?thesis .
  next
    case (Some a)
    with h Cons.prems(1) have "exc = Some a" by simp
    moreover from enviar_linha_excecao[OF h[unfolded Some]] col Cons.prems(8)
    have "a = UnboundLocalError ''msg''" by auto
    ultimately show ?thesis using Cons.prems(2) by simp
  qed
  with Cons.prems(1) h have rest: "enviar_loop ev senha tpl de idxs s' = (exc, s1)" by simp
  have ig: "igual_fora_de_email (dados_ceps s) (dados_ceps s')"
    using enviar_linha_igual[OF h] .
  then have len: "length (rows (dados_ceps s')) = length (rows (dados_ceps s))"
    and cep: "''cep'' \<in> set (columns (dados_ceps s'))"
    using Cons.prems(8) by (simp_all add: igual_fora_de_email_def)
  show ?case
  proof (cases "i = j")
    case True
    have "s' = s\<lparr>dados_ceps := at_set i ''EMAIL'' (JStr ''Erro'') (dados_ceps s)\<rparr>"
      using enviar_linha_sem_sucesso[OF Cons.prems(6,7,8), of ev senha tpl de] h True by simp
    moreover have "i < length (rows (dados_ceps s))" using Cons.prems(4,5) by auto
    ultimately have "series_get (dados_ceps s') i ''EMAIL'' = Inr (Val (JStr ''Erro''))"
      by (simp add: series_get_at_set)
    moreover have "i \<notin> set idxs" using Cons.prems(3) True by simp
    ultimately show ?thesis using enviar_loop_outra[OF rest] by blast
  next
    case False
    then have "i \<in> set idxs" using Cons.prems(4) by simp
    moreover have "i < length (rows (dados_ceps s))" using Cons.prems(4,5) by auto
    then have "series_get (dados_ceps s') i ''status'' = Inr st"
      using igual_series_get[OF ig, of i "''status''"] Cons.prems(6) by simp
    moreover have "distinct idxs" using Cons.prems(3) by simp
    moreover have "\<forall>j \<in> set idxs. j < length (rows (dados_ceps s'))"
      using Cons.prems(5) len by simp
    ultimately show ?thesis
      using Cons.IH[OF rest Cons.prems(2)] Cons.prems(7) cep by blast
  qed
qed

lemma smtp_session_sessoes:
  "smtp_session ev de senha m w = (r, w1) \<Longrightarrow> sessoes w1 = Suc (sessoes w)"
  unfolding smtp_session_def Let_def sessoes_def
  by (auto split: smtp_outcome.splits smtp_stage.splits)

lemma enviar_try_sessoes:
  "enviar_try ev senha tpl de i s = (r, s1) \<Longrightarrow> sessoes (mundo s1) \<le> Suc (sessoes (mundo s))"
  unfolding enviar_try_def Let_def
  by (auto split: sum.splits prod.splits dest: smtp_session_sessoes)

lemma sessoes_logger_error: "sessoes (logger_error e w) = sessoes w"
  by (simp add: sessoes_def logger_error_def)

lemma enviar_linha_sessoes:
  assumes "enviar_linha ev senha tpl de i s = (exc, s1)"
  shows "sessoes (mundo s1) \<le> sessoes (mundo s) +
           (if series_get (dados_ceps s) i ''status'' = Inr (Val (JStr ''Sucesso'')) then 1 else 0)"
  using assms unfolding enviar_linha_def
  by (auto split: sum.splits prod.splits if_splits option.splits
      simp: sessoes_logger_error dest!: enviar_try_sessoes)


lemma enviar_loop_sessoes:
  assumes "enviar_loop ev senha tpl de idxs s = (exc, s1)"
    "\<forall>j \<in> set idxs. j < length (rows (dados_ceps s))"
  shows "sessoes (mundo s1) \<le> sessoes (mundo s) +
           length (filter (\<lambda>i. series_get (dados_ceps s) i ''status'' = Inr (Val (JStr ''Sucesso'')))
                     idxs)"
  using assms
proof (induction idxs arbitrary: s)
  case Nil
  then show ?case by simp
next
  case (Cons j idxs)
  obtain e s' where h: "enviar_linha ev senha tpl de j s = (e, s')"
    by (cases "enviar_linha ev senha tpl de j s")
  note um = enviar_linha_sessoes[OF h]
  show ?case
  proof (cases e)
    case (Some a)
    with Cons.prems(1) h have "s1 = s'" by simp
    with um show ?thesis by (auto split: if_splits)
  next
    case None
    with Cons.prems(1) h have rest: "enviar_loop ev senha tpl de idxs s' = (exc, s1)" by simp
    have ig: "igual_fora_de_email (dados_ceps s) (dados_ceps s')"
      using enviar_linha_igual[OF h] .
    then have len: "length (rows (dados_ceps s')) = length (rows (dados_ceps s))"
      by (simp add: igual_fora_de_email_def)
    have "filter (\<lambda>i. series_get (dados_ceps s') i ''status'' = Inr (Val (JStr ''Sucesso''))) idxs
        = filter (\<lambda>i. series_get (dados_ceps s) i ''status'' = Inr (Val (JStr ''Sucesso''))) idxs"
      using Cons.prems(2) igual_series_get[OF ig, of _ "''status''"]
      by (intro filter_cong) auto
    moreover have "sessoes (mundo s1) \<le> sessoes (mundo s') +
           length (filter (\<lambda>i. series_get (dados_ceps s') i ''status'' = Inr (Val (JStr ''Sucesso'')))
                     idxs)"
      using Cons.IH[OF rest] Cons.prems(2) len by simp
    ultimately show ?thesis using um by (auto split: if_splits)
  qed
qed

lemma send_emails_sessoes:
  assumes "send_emails ev df senha tpl de out w = (exc, df', w')"
  shows "sessoes w' \<le> sessoes w +
           length (filter (\<lambda>i. series_get df i ''status'' = Inr (Val (JStr ''Sucesso'')))
                     [0..<length (rows df)])"
proof -
  obtain e s1 where l: "enviar_loop ev senha tpl de [0..<length (rows df)]
           \<lparr>dados_ceps = df, msg = None, mundo = w\<rparr> = (e, s1)"
    by (cases "enviar_loop ev senha tpl de [0..<length (rows df)]
           \<lparr>dados_ceps = df, msg = None, mundo = w\<rparr>")
  have "sessoes w' = sessoes (mundo s1)"
    using assms l unfolding send_emails_def to_excel_def
    by (auto split: option.splits if_splits simp: sessoes_def)
  with enviar_loop_sessoes[OF l] show ?thesis by simp
qed

lemma send_emails_sem_sucesso:
  assumes "send_emails ev df senha tpl de out w = (exc, df', w')"
    "exc \<noteq> Some (UnboundLocalError ''msg'')" "i < length (rows df)"
    "series_get df i ''status'' = Inr st" "st \<noteq> Val (JStr ''Sucesso'')"
    "''cep'' \<in> set (columns df)"
  shows "series_get df' i ''EMAIL'' = Inr (Val (JStr ''Erro''))"
proof -
  obtain e s1 where l: "enviar_loop ev senha tpl de [0..<length (rows df)]
           \<lparr>dados_ceps = df, msg = None, mundo = w\<rparr> = (e, s1)"
    by (cases "enviar_loop ev senha tpl de [0..<length (rows df)]
           \<lparr>dados_ceps = df, msg = None, mundo = w\<rparr>")
  have "df' = dados_ceps s1" "e \<noteq> Some (UnboundLocalError ''msg'')"
    using assms(1,2) l unfolding send_emails_def to_excel_def
    by (auto split: option.splits if_splits)
  then show ?thesis
    using enviar_loop_sem_sucesso[OF l, of i st] assms(3-6) by simp
qed

section \<open>The small run, evaluated\<close>

lemmas consulta_defs = consultar_cep_def consultar_cep_viacep_def consultar_cep_opencep_def
  realizar_consulta_def consulta_try_def raise_for_status_def normalizar_def py_replace_def
  strip_def isspace_def dict_get_def logger_error_def viacep_link_def opencep_link_def

lemma process_exemplo:
  "process (ev_exemplo servicos_exemplo so [''01001-000'', ''00000-000'']) ''ceps.csv'' ''dados.xlsx''
     mundo_inicial =
     (Some tabela_exemplo,
      \<lparr>http_log = [viacep_link ''01001000'', viacep_link ''00000000'', opencep_link ''00000000''],
       smtp_log = [],
       err_log = [HTTPError 400, HTTPError 404],
       excel_log = [(''dados.xlsx'', tabela_exemplo)]\<rparr>)"
  by (simp add: process_def process_try_def ev_exemplo_def servicos_exemplo_def column_cells_def
      str_exemplo_def consulta_defs mundo_inicial_def Let_def DataFrame_def set_column_def
      to_excel_def tabela_exemplo_def endereco_se_def)


lemmas envio_defs = send_emails_def enviar_linha_def enviar_try_def montar_mensagem_def
  assunto_def destinatario_def corpo_email_def
  series_get_def py_replace_def smtp_session_def at_set_def to_excel_def logger_error_def
  Let_def upt_conv_Cons

lemma send_emails_exemplo:
  "send_emails (ev_exemplo servicos Delivered cs) tabela_exemplo ''senha''
     ''CEP ${cep} - ${cidade}/${estado}'' ''remetente@gmail.com'' ''dados.xlsx'' mundo_inicial =
   (None, tabela_enviada ''Sucesso'',
    \<lparr>http_log = [], smtp_log = sessao_exemplo, err_log = [],
     excel_log = [(''dados.xlsx'', tabela_enviada ''Sucesso'')]\<rparr>)"
  by (simp add: envio_defs ev_exemplo_def str_exemplo_def mundo_inicial_def
      tabela_exemplo_def endereco_se_def mensagem_exemplo_def sessao_exemplo_def tabela_enviada_def)

lemma send_emails_exemplo_falha:
  "send_emails (ev_exemplo servicos (RaisesAt Login) cs) tabela_exemplo ''senha''
     ''CEP ${cep} - ${cidade}/${estado}'' ''remetente@gmail.com'' ''dados.xlsx'' mundo_inicial =
   (None, tabela_enviada ''Erro'',
    \<lparr>http_log = [],
     smtp_log = [SmtpConnect ''smtp.gmail.com'' 587, SmtpStarttls,
                 SmtpLogin ''remetente@gmail.com'' ''senha'', SmtpQuit],
     err_log = [SMTPException Login],
     excel_log = [(''dados.xlsx'', tabela_enviada ''Erro'')]\<rparr>)"
  by (simp add: envio_defs ev_exemplo_def str_exemplo_def mundo_inicial_def
      tabela_exemplo_def endereco_se_def tabela_enviada_def)


section \<open>The sender: claims\<close>

text \<open>
  Claim C10. \<^verbatim>\<open>send_emails\<close> writes to the column \<^verbatim>\<open>EMAIL\<close> only: whatever the mail
  relay does and whether or not an exception leaves the function, the table has the same
  rows afterwards, and every cell outside \<^verbatim>\<open>EMAIL\<close> (the code, the status, the address
  attributes) reads as before.
\<close>

theorem send_emails_so_altera_email:
  assumes "send_emails ev df senha tpl de out w = (exc, df', w')"
  shows "length (rows df') = length (rows df) \<and>
         (\<forall>i < length (rows df). \<forall>c. c \<noteq> ''EMAIL'' \<longrightarrow> series_get df' i c = series_get df i c)"
  using send_emails_igual[OF assms] igual_series_get[of df df']
  by (simp add: igual_fora_de_email_def)

theorem send_emails_so_altera_email_witness:
  "send_emails (ev_exemplo servicos_exemplo (RaisesAt Login) []) tabela_exemplo ''senha''
     ''CEP ${cep} - ${cidade}/${estado}'' ''remetente@gmail.com'' ''dados.xlsx'' mundo_inicial =
   (None, tabela_enviada ''Erro'',
    \<lparr>http_log = [],
     smtp_log = [SmtpConnect ''smtp.gmail.com'' 587, SmtpStarttls,
                 SmtpLogin ''remetente@gmail.com'' ''senha'', SmtpQuit],
     err_log = [SMTPException Login],
     excel_log = [(''dados.xlsx'', tabela_enviada ''Erro'')]\<rparr>) \<and>
   series_get (tabela_enviada ''Erro'') 0 ''status'' = series_get tabela_exemplo 0 ''status'' \<and>
   series_get (tabela_enviada ''Erro'') 1 ''cep'' = series_get tabela_exemplo 1 ''cep''"
  using send_emails_so_altera_email [OF send_emails_exemplo_falha [of servicos_exemplo "[]"]]
    send_emails_exemplo_falha [of servicos_exemplo "[]"]
  by (simp add: tabela_exemplo_def)

text \<open>
  Rows that were not resolved, where the loop reaches them. In a table of records, which
  all carry their code in the column \<^verbatim>\<open>cep\<close>, a row whose status is not \<^verbatim>\<open>Sucesso\<close> is
  handled by one iteration that sets its \<^verbatim>\<open>EMAIL\<close> to \<^verbatim>\<open>Erro\<close> and leaves the world as it
  was: no connection, no login, no message. Over a whole table, \<^verbatim>\<open>send_emails\<close> starts at
  most one mail session per row with status \<^verbatim>\<open>Sucesso\<close>, and unless the run is cut short by
  the unbound \<open>msg\<close> of an earlier row, every row with another status ends with \<^verbatim>\<open>EMAIL\<close>
  equal to \<^verbatim>\<open>Erro\<close>.
\<close>

lemma send_emails_linhas_sem_sucesso:
  "(''cep'' \<in> set (columns (dados_ceps s)) \<and>
    series_get (dados_ceps s) i ''status'' = Inr st \<and> st \<noteq> Val (JStr ''Sucesso'') \<and>
    i < length (rows (dados_ceps s)) \<longrightarrow>
      (\<exists>s1. enviar_linha ev senha tpl de i s = (None, s1) \<and>
            series_get (dados_ceps s1) i ''EMAIL'' = Inr (Val (JStr ''Erro'')) \<and>
            mundo s1 = mundo s)) \<and>
   (send_emails ev df senha tpl de out w = (exc, df', w') \<longrightarrow>
      sessoes w' \<le> sessoes w +
        length (filter (\<lambda>j. series_get df j ''status'' = Inr (Val (JStr ''Sucesso'')))
                  [0..<length (rows df)]) \<and>
      (''cep'' \<in> set (columns df) \<and> exc \<noteq> Some (UnboundLocalError ''msg'') \<longrightarrow>
         (\<forall>j < length (rows df). \<forall>x. series_get df j ''status'' = Inr x \<and>
              x \<noteq> Val (JStr ''Sucesso'') \<longrightarrow>
              series_get df' j ''EMAIL'' = Inr (Val (JStr ''Erro'')))))"
proof (intro conjI impI allI)
  assume a: "''cep'' \<in> set (columns (dados_ceps s)) \<and>
    series_get (dados_ceps s) i ''status'' = Inr st \<and> st \<noteq> Val (JStr ''Sucesso'') \<and>
    i < length (rows (dados_ceps s))"
  then show "\<exists>s1. enviar_linha ev senha tpl de i s = (None, s1) \<and>
            series_get (dados_ceps s1) i ''EMAIL'' = Inr (Val (JStr ''Erro'')) \<and>
            mundo s1 = mundo s"
    using enviar_linha_sem_sucesso[of s i st ev senha tpl de]
    by (simp add: series_get_at_set)
next
  assume "send_emails ev df senha tpl de out w = (exc, df', w')"
  then show "sessoes w' \<le> sessoes w +
        length (filter (\<lambda>j. series_get df j ''status'' = Inr (Val (JStr ''Sucesso'')))
                  [0..<length (rows df)])"
    by (rule send_emails_sessoes)
next
  fix j x
  assume "send_emails ev df senha tpl de out w = (exc, df', w')"
    "''cep'' \<in> set (columns df) \<and> exc \<noteq> Some (UnboundLocalError ''msg'')"
    "j < length (rows df)"
    "series_get df j ''status'' = Inr x \<and> x \<noteq> Val (JStr ''Sucesso'')"
  then show "series_get df' j ''EMAIL'' = Inr (Val (JStr ''Erro''))"
    using send_emails_sem_sucesso[of ev df senha tpl de out w exc df' w' j x] by simp
qed

section \<open>Sending again\<close>

lemma corpo_email_ok:
  "tem_colunas_do_email df \<Longrightarrow> \<exists>c. corpo_email ev df i tpl = Inr c"
  by (simp add: tem_colunas_do_email_def corpo_email_def series_get_def split: option.splits)

lemma corpo_email_falha:
  "\<not> tem_colunas_do_email df \<Longrightarrow> \<exists>e. corpo_email ev df i tpl = Inl e"
  unfolding tem_colunas_do_email_def corpo_email_def series_get_def
  by (auto split: option.splits)

lemma igual_tem_colunas:
  "igual_fora_de_email df df' \<Longrightarrow> tem_colunas_do_email df' = tem_colunas_do_email df"
  by (simp add: igual_fora_de_email_def tem_colunas_do_email_def)

lemma igual_corpo_email:
  assumes "igual_fora_de_email df df'" "i < length (rows df)"
  shows "corpo_email ev df' i tpl = corpo_email ev df i tpl"
proof -
  have e: "series_get df' i ''cep'' = series_get df i ''cep''"
    "series_get df' i ''logradouro'' = series_get df i ''logradouro''"
    "series_get df' i ''bairro'' = series_get df i ''bairro''"
    "series_get df' i ''localidade'' = series_get df i ''localidade''"
    "series_get df' i ''uf'' = series_get df i ''uf''"
    using igual_series_get[OF assms] by simp_all
  show ?thesis unfolding corpo_email_def e ..
qed

lemma igual_montar_mensagem:
  assumes "igual_fora_de_email df df'" "i < length (rows df)"
  shows "montar_mensagem ev de df' i corpo = montar_mensagem ev de df i corpo"
proof -
  have e: "series_get df' i ''cep'' = series_get df i ''cep''"
    using igual_series_get[OF assms] by simp
  show ?thesis unfolding montar_mensagem_def e ..
qed

lemma igual_mensagem_aceita:
  assumes "igual_fora_de_email df df'" "i < length (rows df)"
  shows "mensagem_aceita ev tpl de df' i = mensagem_aceita ev tpl de df i"
  unfolding mensagem_aceita_def igual_corpo_email[OF assms] igual_montar_mensagem[OF assms] ..

lemma enviar_try_ok:
  assumes "tem_colunas_do_email (dados_ceps s)"
  shows "\<exists>r s1. enviar_try ev senha tpl de i s = (r, s1) \<and> msg s1 \<noteq> None \<and>
           sessoes (mundo s1) = sessoes (mundo s) +
             (if mensagem_aceita ev tpl de (dados_ceps s) i then 1 else 0)"
proof -
  obtain c where c: "corpo_email ev (dados_ceps s) i tpl = Inr c"
    using corpo_email_ok[OF assms] by blast
  obtain r m where m: "montar_mensagem ev de (dados_ceps s) i c = (r, m)"
    by (cases "montar_mensagem ev de (dados_ceps s) i c")
  show ?thesis
  proof (cases r)
    case (Inl e)
    then show ?thesis
      by (simp add: enviar_try_def mensagem_aceita_def c m)
  next
    case (Inr u)
    obtain r2 w1 where x: "smtp_session ev de senha m (mundo s) = (r2, w1)"
      by (cases "smtp_session ev de senha m (mundo s)")
    from smtp_session_sessoes[OF x] show ?thesis
      by (cases r2) (simp_all add: enviar_try_def mensagem_aceita_def c m Inr x)
  qed
qed

lemma enviar_linha_sucesso_ok:
  assumes "series_get (dados_ceps s) i ''status'' = Inr (Val (JStr ''Sucesso''))"
    "tem_colunas_do_email (dados_ceps s)"
  shows "\<exists>s1. enviar_linha ev senha tpl de i s = (None, s1) \<and> msg s1 \<noteq> None \<and>
           sessoes (mundo s1) = sessoes (mundo s) +
             (if mensagem_aceita ev tpl de (dados_ceps s) i then 1 else 0)"
proof -
  obtain r s' where t: "enviar_try ev senha tpl de i s = (r, s')" "msg s' \<noteq> None"
     "sessoes (mundo s') = sessoes (mundo s) +
        (if mensagem_aceita ev tpl de (dados_ceps s) i then 1 else 0)"
    using enviar_try_ok[OF assms(2)] by blast
  have "''cep'' \<in> set (columns (dados_ceps s))"
    using assms(2) by (simp add: tem_colunas_do_email_def)
  then have "''cep'' \<in> set (columns (dados_ceps s'))"
    using enviar_try_igual[OF t(1)] by (simp add: igual_fora_de_email_def)
  then obtain c where "series_get (dados_ceps s') i ''cep'' = Inr c"
    using series_get_coluna by blast
  with t show ?thesis
    using assms(1) unfolding enviar_linha_def
    by (auto split: sum.splits simp: sessoes_logger_error)
qed

lemma enviar_linha_sucesso_sem_colunas:
  assumes "series_get (dados_ceps s) i ''status'' = Inr (Val (JStr ''Sucesso''))"
    "\<not> tem_colunas_do_email (dados_ceps s)" "msg s = None"
  shows "enviar_linha ev senha tpl de i s = (Some (UnboundLocalError ''msg''), s)"
proof -
  obtain e where "corpo_email ev (dados_ceps s) i tpl = Inl e"
    using corpo_email_falha[OF assms(2)] by blast
  then show ?thesis
    using assms(1,3) by (simp add: enviar_linha_def enviar_try_def)
qed


lemma igual_comprimento:
  "igual_fora_de_email df df' \<Longrightarrow> length (rows df') = length (rows df)"
  by (simp add: igual_fora_de_email_def)

lemma igual_filtro_status:
  assumes "igual_fora_de_email df df'" "\<forall>j \<in> set idxs. j < length (rows df)"
  shows "filter (\<lambda>j. series_get df' j ''status'' = Inr (Val (JStr ''Sucesso'')) \<and>
                     mensagem_aceita ev tpl de df' j) idxs =
         filter (\<lambda>j. series_get df j ''status'' = Inr (Val (JStr ''Sucesso'')) \<and>
                     mensagem_aceita ev tpl de df j) idxs"
  using assms(2) igual_series_get[OF assms(1), of _ "''status''"]
    igual_mensagem_aceita[OF assms(1), of _ ev tpl de]
  by (intro filter_cong) auto

lemma enviar_loop_completo_tem_colunas:
  assumes "enviar_loop ev senha tpl de idxs s = (None, s1)" "msg s = None" "i \<in> set idxs"
    "series_get (dados_ceps s) i ''status'' = Inr (Val (JStr ''Sucesso''))"
    "\<forall>j \<in> set idxs. j < length (rows (dados_ceps s))"
  shows "tem_colunas_do_email (dados_ceps s)"
  using assms
proof (induction idxs arbitrary: s)
  case Nil
  then show ?case by simp
next
  case (Cons j idxs)
  show ?case
  proof (cases "series_get (dados_ceps s) j ''status'' = Inr (Val (JStr ''Sucesso''))")
    case True
    show ?thesis
    proof (rule ccontr)
      assume "\<not> tem_colunas_do_email (dados_ceps s)"
      from enviar_linha_sucesso_sem_colunas[OF True this Cons.prems(2), of ev senha tpl de]
      show False using Cons.prems(1) by simp
    qed
  next
    case False
    have "''status'' \<in> set (columns (dados_ceps s))"
      using Cons.prems(4) by (auto simp: series_get_def split: if_splits)
    then obtain st where st: "series_get (dados_ceps s) j ''status'' = Inr st"
      using series_get_coluna by blast
    with False have ne: "st \<noteq> Val (JStr ''Sucesso'')" by simp
    have cep: "''cep'' \<in> set (columns (dados_ceps s))"
    proof (rule ccontr)
      assume "''cep'' \<notin> set (columns (dados_ceps s))"
      from enviar_linha_sem_cep[OF this, of ev senha tpl de j]
      show False using Cons.prems(1) by auto
    qed
    define s' where "s' = s\<lparr>dados_ceps := at_set j ''EMAIL'' (JStr ''Erro'') (dados_ceps s)\<rparr>"
    have h: "enviar_linha ev senha tpl de j s = (None, s')"
      using enviar_linha_sem_sucesso[OF st ne cep] by (simp add: s'_def)
    have ig: "igual_fora_de_email (dados_ceps s) (dados_ceps s')"
      using enviar_linha_igual[OF h] .
    have rest: "enviar_loop ev senha tpl de idxs s' = (None, s1)"
      using Cons.prems(1) h by simp
    have i: "i \<in> set idxs" using Cons.prems(3,4) False by auto
    then have "i < length (rows (dados_ceps s))" using Cons.prems(5) by simp
    then have "series_get (dados_ceps s') i ''status'' = Inr (Val (JStr ''Sucesso''))"
      using igual_series_get[OF ig, of i "''status''"] Cons.prems(4) by simp
    moreover have "msg s' = None" using Cons.prems(2) by (simp add: s'_def)
    moreover have "\<forall>j \<in> set idxs. j < length (rows (dados_ceps s'))"
      using Cons.prems(5) igual_comprimento[OF ig] by simp
    ultimately have "tem_colunas_do_email (dados_ceps s')"
      using Cons.IH[OF rest] i by blast
    then show ?thesis using igual_tem_colunas[OF ig] by simp
  qed
qed

lemma enviar_loop_reenvio:
  assumes "''status'' \<in> set (columns (dados_ceps s))"
    "''cep'' \<in> set (columns (dados_ceps s))"
    "tem_colunas_do_email (dados_ceps s) \<or>
     (\<forall>j \<in> set idxs. series_get (dados_ceps s) j ''status'' \<noteq> Inr (Val (JStr ''Sucesso'')))"
    "\<forall>j \<in> set idxs. j < length (rows (dados_ceps s))"
  shows "\<exists>s1. enviar_loop ev senha tpl de idxs s = (None, s1) \<and>
           sessoes (mundo s1) = sessoes (mundo s) +
             length (filter (\<lambda>j. series_get (dados_ceps s) j ''status'' = Inr (Val (JStr ''Sucesso'')) \<and>
                                 mensagem_aceita ev tpl de (dados_ceps s) j) idxs)"
  using assms
proof (induction idxs arbitrary: s)
  case Nil
  then show ?case by simp
next
  case (Cons j idxs)
  have "\<exists>s'. enviar_linha ev senha tpl de j s = (None, s') \<and>
          sessoes (mundo s') = sessoes (mundo s) +
            (if series_get (dados_ceps s) j ''status'' = Inr (Val (JStr ''Sucesso'')) \<and>
                mensagem_aceita ev tpl de (dados_ceps s) j then 1 else 0)"
  proof (cases "series_get (dados_ceps s) j ''status'' = Inr (Val (JStr ''Sucesso''))")
    case True
    with Cons.prems(3) have "tem_colunas_do_email (dados_ceps s)" by auto
    from enviar_linha_sucesso_ok[OF True this, of ev senha tpl de] True
    show ?thesis by auto
  next
    case False
    obtain st where st: "series_get (dados_ceps s) j ''status'' = Inr st"
      using series_get_coluna[OF Cons.prems(1)] by blast
    with False have "st \<noteq> Val (JStr ''Sucesso'')" by simp
    from enviar_linha_sem_sucesso[OF st this Cons.prems(2), of ev senha tpl de] False
    show ?thesis by simp
  qed
  then obtain s' where h: "enviar_linha ev senha tpl de j s = (None, s')"
    and n: "sessoes (mundo s') = sessoes (mundo s) +
            (if series_get (dados_ceps s) j ''status'' = Inr (Val (JStr ''Sucesso'')) \<and>
                mensagem_aceita ev tpl de (dados_ceps s) j then 1 else 0)"
    by blast
  have ig: "igual_fora_de_email (dados_ceps s) (dados_ceps s')"
    using enviar_linha_igual[OF h] .
  have lt: "\<forall>j \<in> set idxs. j < length (rows (dados_ceps s))" using Cons.prems(4) by simp
  note f = igual_filtro_status[OF ig lt, of ev tpl de]
  have 1: "''status'' \<in> set (columns (dados_ceps s'))"
    using ig Cons.prems(1) by (simp add: igual_fora_de_email_def)
  have c: "''cep'' \<in> set (columns (dados_ceps s'))"
    using ig Cons.prems(2) by (simp add: igual_fora_de_email_def)
  have 2: "tem_colunas_do_email (dados_ceps s') \<or>
     (\<forall>j \<in> set idxs. series_get (dados_ceps s') j ''status'' \<noteq> Inr (Val (JStr ''Sucesso'')))"
    using Cons.prems(3) igual_tem_colunas[OF ig] igual_series_get[OF ig, of _ "''status''"] lt
    by auto
  have 3: "\<forall>j \<in> set idxs. j < length (rows (dados_ceps s'))"
    using lt igual_comprimento[OF ig] by simp
  from Cons.IH[OF 1 c 2 3] obtain s1 where
    "enviar_loop ev senha tpl de idxs s' = (None, s1)"
    "sessoes (mundo s1) = sessoes (mundo s') +
       length (filter (\<lambda>j. series_get (dados_ceps s') j ''status'' = Inr (Val (JStr ''Sucesso'')) \<and>
                           mensagem_aceita ev tpl de (dados_ceps s') j) idxs)"
    by blast
  with h n f show ?case by (auto split: if_splits)
qed

lemma at_set_mesmo:
  assumes "series_get df i c = Inr (Val v)" "i < length (rows df)"
  shows "at_set i c v df = df"
proof -
  have c: "c \<in> set (columns df)" and m: "map_of (rows df ! i) c = Some v"
    using assms(1) by (auto simp: series_get_def split: if_splits option.splits)
  have "AList.update c v (rows df ! i) = rows df ! i"
    using m by (rule update_triv)
  then show ?thesis using c by (simp add: at_set_def)
qed

lemma enviar_try_outra_linha:
  "enviar_try ev senha tpl de j s = (r, s1) \<Longrightarrow> i \<noteq> j \<Longrightarrow>
     rows (dados_ceps s1) ! i = rows (dados_ceps s) ! i"
  unfolding enviar_try_def Let_def
  by (auto split: sum.splits prod.splits simp: at_set_def)

lemma enviar_linha_outra_linha:
  "enviar_linha ev senha tpl de j s = (exc, s1) \<Longrightarrow> i \<noteq> j \<Longrightarrow>
     rows (dados_ceps s1) ! i = rows (dados_ceps s) ! i"
  unfolding enviar_linha_def
  by (auto split: sum.splits prod.splits if_splits option.splits simp: at_set_def
      dest: enviar_try_outra_linha)

lemma enviar_loop_outra_linha:
  "enviar_loop ev senha tpl de idxs s = (exc, s1) \<Longrightarrow> i \<notin> set idxs \<Longrightarrow>
     rows (dados_ceps s1) ! i = rows (dados_ceps s) ! i"
proof (induction idxs arbitrary: s)
  case Nil
  then show ?case by simp
next
  case (Cons j idxs)
  obtain e s' where h: "enviar_linha ev senha tpl de j s = (e, s')"
    by (cases "enviar_linha ev senha tpl de j s")
  from Cons.prems(2) have ij: "i \<noteq> j" "i \<notin> set idxs" by auto
  note r = enviar_linha_outra_linha[OF h ij(1)]
  show ?case
  proof (cases e)
    case None
    with Cons.prems(1) h have "enviar_loop ev senha tpl de idxs s' = (exc, s1)" by simp
    from Cons.IH[OF this ij(2)] r show ?thesis by simp
  next
    case (Some a)
    with Cons.prems(1) h have "s1 = s'" by simp
    with r show ?thesis by simp
  qed
qed

lemma enviar_linha_erro_inalterada:
  assumes "series_get (dados_ceps s) i ''status'' = Inr st" "st \<noteq> Val (JStr ''Sucesso'')"
    "series_get (dados_ceps s) i ''EMAIL'' = Inr (Val (JStr ''Erro''))"
    "i < length (rows (dados_ceps s))" "''cep'' \<in> set (columns (dados_ceps s))"
  shows "enviar_linha ev senha tpl de i s = (None, s)"
  using enviar_linha_sem_sucesso[OF assms(1,2,5)] at_set_mesmo[OF assms(3,4)] by simp

lemma enviar_loop_erro_inalterada:
  assumes "enviar_loop ev senha tpl de idxs s = (exc, s1)" "distinct idxs"
    "series_get (dados_ceps s) i ''status'' = Inr st" "st \<noteq> Val (JStr ''Sucesso'')"
    "series_get (dados_ceps s) i ''EMAIL'' = Inr (Val (JStr ''Erro''))"
    "i < length (rows (dados_ceps s))" "''cep'' \<in> set (columns (dados_ceps s))"
  shows "rows (dados_ceps s1) ! i = rows (dados_ceps s) ! i"
  using assms
proof (induction idxs arbitrary: s)
  case Nil
  then show ?case by simp
next
  case (Cons j idxs)
  show ?case
  proof (cases "i = j")
    case True
    have "enviar_linha ev senha tpl de j s = (None, s)"
      using enviar_linha_erro_inalterada[OF Cons.prems(3-7)] True by simp
    with Cons.prems(1) have "enviar_loop ev senha tpl de idxs s = (exc, s1)" by simp
    moreover have "i \<notin> set idxs" using Cons.prems(2) True by simp
    ultimately show ?thesis by (rule enviar_loop_outra_linha)
  next
    case False
    obtain e s' where h: "enviar_linha ev senha tpl de j s = (e, s')"
      by (cases "enviar_linha ev senha tpl de j s")
    note r = enviar_linha_outra_linha[OF h False]
    show ?thesis
    proof (cases e)
      case (Some a)
      with Cons.prems(1) h have "s1 = s'" by simp
      with r show ?thesis by simp
    next
      case None
      with Cons.prems(1) h have rest: "enviar_loop ev senha tpl de idxs s' = (exc, s1)" by simp
      have ig: "igual_fora_de_email (dados_ceps s) (dados_ceps s')"
        using enviar_linha_igual[OF h] .
      have 1: "series_get (dados_ceps s') i ''status'' = Inr st"
        using igual_series_get[OF ig Cons.prems(6), of "''status''"] Cons.prems(3) by simp
      have 2: "series_get (dados_ceps s') i ''EMAIL'' = Inr (Val (JStr ''Erro''))"
        using enviar_linha_outra[OF h False Cons.prems(5)] .
      have 3: "i < length (rows (dados_ceps s'))"
        using Cons.prems(6) igual_comprimento[OF ig] by simp
      have 4: "''cep'' \<in> set (columns (dados_ceps s'))"
        using ig Cons.prems(7) by (simp add: igual_fora_de_email_def)
      have "distinct idxs" using Cons.prems(2) by simp
      from Cons.IH[OF rest this 1 Cons.prems(4) 2 3 4] r show ?thesis by simp
    qed
  qed
qed

lemma enviar_loop_tem_status:
  assumes "enviar_loop ev senha tpl de idxs s = (None, s1)" "idxs \<noteq> []"
  shows "''status'' \<in> set (columns (dados_ceps s))"
proof (cases idxs)
  case Nil
  with assms(2) show ?thesis by simp
next
  case (Cons j js)
  show ?thesis
  proof (rule ccontr)
    assume "''status'' \<notin> set (columns (dados_ceps s))"
    then have "enviar_linha ev senha tpl de j s = (Some (KeyError ''status''), s)"
      by (simp add: enviar_linha_def series_get_def)
    with assms(1) Cons show False by simp
  qed
qed


lemma enviar_loop_tem_cep:
  assumes "enviar_loop ev senha tpl de idxs s = (None, s1)" "idxs \<noteq> []"
  shows "''cep'' \<in> set (columns (dados_ceps s))"
proof (cases idxs)
  case Nil
  with assms(2) show ?thesis by simp
next
  case (Cons j js)
  show ?thesis
  proof (rule ccontr)
    assume "''cep'' \<notin> set (columns (dados_ceps s))"
    from enviar_linha_sem_cep[OF this, of ev senha tpl de j]
    show False using assms(1) Cons by auto
  qed
qed

lemma send_emails_loop:
  assumes "send_emails ev df senha tpl de out w = (None, df', w')"
  shows "\<exists>s1. enviar_loop ev senha tpl de [0..<length (rows df)]
                \<lparr>dados_ceps = df, msg = None, mundo = w\<rparr> = (None, s1) \<and> df' = dados_ceps s1"
  using assms unfolding send_emails_def
  by (auto split: prod.splits option.splits sum.splits)

lemma loop_send_emails:
  assumes "enviar_loop ev senha tpl de [0..<length (rows df)]
             \<lparr>dados_ceps = df, msg = None, mundo = w\<rparr> = (None, s1)"
  shows "\<exists>exc w'. send_emails ev df senha tpl de out w = (exc, dados_ceps s1, w') \<and>
           (exc = None \<or> exc = Some OSError) \<and> sessoes w' = sessoes (mundo s1)"
  using assms unfolding send_emails_def to_excel_def
  by (auto simp: sessoes_def)

lemma send_emails_exemplo_de_novo:
  "send_emails (ev_exemplo servicos (RaisesAt Connect) cs) (tabela_enviada ''Sucesso'') ''senha''
     ''CEP ${cep} - ${cidade}/${estado}'' ''remetente@gmail.com'' ''dados.xlsx'' mundo_enviado =
   (None, tabela_enviada ''Erro'',
    \<lparr>http_log = [], smtp_log = sessao_exemplo @ [SmtpConnect ''smtp.gmail.com'' 587],
     err_log = [SMTPException Connect],
     excel_log = [(''dados.xlsx'', tabela_enviada ''Sucesso''),
                  (''dados.xlsx'', tabela_enviada ''Erro'')]\<rparr>)"
  by (simp add: envio_defs ev_exemplo_def str_exemplo_def mundo_enviado_def
      endereco_se_def tabela_enviada_def sessao_exemplo_def)

lemma process_sem_endereco:
  "process (ev_exemplo servicos_exemplo so [''20040-020'', ''00000-000'']) input_file output_file
     mundo_inicial = (Some tabela_sem_endereco, mundo_sem_endereco output_file)"
  by (simp add: process_def process_try_def ev_exemplo_def servicos_exemplo_def column_cells_def
      str_exemplo_def consulta_defs mundo_inicial_def Let_def DataFrame_def set_column_def
      to_excel_def tabela_sem_endereco_def mundo_sem_endereco_def)

lemma send_emails_sem_endereco:
  "send_emails (ev_exemplo servicos so cs) tabela_sem_endereco senha tpl de out w =
     (Some (UnboundLocalError ''msg''), tabela_sem_endereco, w)"
  by (simp add: envio_defs tabela_sem_endereco_def)

lemma read_text_exemplo:
  "read_text (ev_exemplo servicos so cs) f =
     Inr (if f = ''pass.txt'' then ''senha'' @ [CHR 0x0A]
          else ''CEP ${cep} - ${cidade}/${estado}'')"
  by (simp add: ev_exemplo_def)

lemma main_sem_endereco:
  "main (ev_exemplo servicos_exemplo so [''20040-020'', ''00000-000'']) mundo_inicial =
     (Inl (UnboundLocalError ''msg''),
      logger_error (UnboundLocalError ''msg'') (mundo_sem_endereco ''dados_ceps_completos.xlsx''))"
  by (simp add: main_def main_try_def process_sem_endereco send_emails_sem_endereco df_empty_def
      read_text_exemplo)
    (simp add: tabela_sem_endereco_def)


lemma igual_tentativa:
  assumes "igual_fora_de_email df df'" "i < length (rows df)"
  shows "tentativa ev tpl de df' i n = tentativa ev tpl de df i n"
  unfolding tentativa_def igual_corpo_email[OF assms] igual_montar_mensagem[OF assms] ..

lemma smtp_session_resultado:
  assumes "smtp_session ev de senha m w = (r, w1)"
  shows "length (smtp_log w1) = length (smtp_log w) + chamadas (smtp_server ev (length (smtp_log w)) m)"
    and "(\<exists>u. r = Inr u) \<longleftrightarrow> smtp_server ev (length (smtp_log w)) m = Delivered"
  using assms unfolding smtp_session_def Let_def
  by (auto split: smtp_outcome.splits smtp_stage.splits)

lemma enviar_try_resultado:
  assumes "enviar_try ev senha tpl de i s = (r, s1)"
  shows "length (smtp_log (mundo s1)) = length (smtp_log (mundo s)) +
           (case tentativa ev tpl de (dados_ceps s) i (length (smtp_log (mundo s))) of
              None \<Rightarrow> 0 | Some x \<Rightarrow> chamadas x)"
    and "(\<exists>u. r = Inr u) \<longleftrightarrow>
           tentativa ev tpl de (dados_ceps s) i (length (smtp_log (mundo s))) = Some Delivered"
    and "(\<exists>u. r = Inr u) \<Longrightarrow> dados_ceps s1 = at_set i ''EMAIL'' (JStr ''Sucesso'') (dados_ceps s)"
    and "(\<exists>e. r = Inl e) \<Longrightarrow> dados_ceps s1 = dados_ceps s"
proof -
  show "length (smtp_log (mundo s1)) = length (smtp_log (mundo s)) +
           (case tentativa ev tpl de (dados_ceps s) i (length (smtp_log (mundo s))) of
              None \<Rightarrow> 0 | Some x \<Rightarrow> chamadas x)"
    using assms unfolding enviar_try_def tentativa_def
    by (auto split: sum.splits prod.splits dest: smtp_session_resultado(1))
  show "(\<exists>u. r = Inr u) \<longleftrightarrow>
           tentativa ev tpl de (dados_ceps s) i (length (smtp_log (mundo s))) = Some Delivered"
    using assms unfolding enviar_try_def tentativa_def
    by (auto split: sum.splits prod.splits dest: smtp_session_resultado(2))
  show "(\<exists>u. r = Inr u) \<Longrightarrow> dados_ceps s1 = at_set i ''EMAIL'' (JStr ''Sucesso'') (dados_ceps s)"
    using assms unfolding enviar_try_def
    by (auto split: sum.splits prod.splits)
  show "(\<exists>e. r = Inl e) \<Longrightarrow> dados_ceps s1 = dados_ceps s"
    using assms unfolding enviar_try_def
    by (auto split: sum.splits prod.splits)
qed

lemma logger_error_smtp_log: "smtp_log (logger_error e w) = smtp_log w"
  by (simp add: logger_error_def)

lemma enviar_linha_resultado:
  assumes "enviar_linha ev senha tpl de i s = (None, s1)" "i < length (rows (dados_ceps s))"
    "series_get (dados_ceps s) i ''status'' = Inr (Val (JStr ''Sucesso''))"
  shows "series_get (dados_ceps s1) i ''EMAIL'' =
           Inr (Val (JStr (if tentativa ev tpl de (dados_ceps s) i (length (smtp_log (mundo s)))
                              = Some Delivered then ''Sucesso'' else ''Erro'')))"
    and "length (smtp_log (mundo s1)) = length (smtp_log (mundo s)) +
           (case tentativa ev tpl de (dados_ceps s) i (length (smtp_log (mundo s))) of
              None \<Rightarrow> 0 | Some x \<Rightarrow> chamadas x)"
proof -
  obtain r s' where t: "enviar_try ev senha tpl de i s = (r, s')"
    by (cases "enviar_try ev senha tpl de i s")
  note q = enviar_try_resultado[OF t]
  show "series_get (dados_ceps s1) i ''EMAIL'' =
           Inr (Val (JStr (if tentativa ev tpl de (dados_ceps s) i (length (smtp_log (mundo s)))
                              = Some Delivered then ''Sucesso'' else ''Erro'')))"
  proof (cases r)
    case (Inr u)
    with assms(1,3) t have "s1 = s'" by (simp add: enviar_linha_def)
    with q(2,3) Inr assms(2) show ?thesis by (simp add: series_get_at_set)
  next
    case (Inl e)
    with q(4) have d: "dados_ceps s' = dados_ceps s" by simp
    from assms(1,3) t Inl
    have "dados_ceps s1 = at_set i ''EMAIL'' (JStr ''Erro'') (dados_ceps s')"
      by (auto simp: enviar_linha_def split: option.splits sum.splits)
    with q(2) Inl d assms(2) show ?thesis by (simp add: series_get_at_set)
  qed
  show "length (smtp_log (mundo s1)) = length (smtp_log (mundo s)) +
           (case tentativa ev tpl de (dados_ceps s) i (length (smtp_log (mundo s))) of
              None \<Rightarrow> 0 | Some x \<Rightarrow> chamadas x)"
  proof (cases r)
    case (Inr u)
    with assms(1,3) t have "s1 = s'" by (simp add: enviar_linha_def)
    with q(1) show ?thesis by simp
  next
    case (Inl e)
    from assms(1,3) t Inl
    have "smtp_log (mundo s1) = smtp_log (mundo s')"
      by (auto simp: enviar_linha_def logger_error_smtp_log split: option.splits sum.splits)
    with q(1) show ?thesis by simp
  qed
qed

lemma enviar_linha_sem_sucesso_registro:
  assumes "enviar_linha ev senha tpl de i s = (None, s1)"
    "series_get (dados_ceps s) i ''status'' \<noteq> Inr (Val (JStr ''Sucesso''))"
  shows "smtp_log (mundo s1) = smtp_log (mundo s)"
  using assms unfolding enviar_linha_def
  by (auto split: sum.splits if_splits)

lemma enviar_loop_resultado:
  assumes "enviar_loop ev senha tpl de [k..<n] s = (None, s1)"
    "igual_fora_de_email df (dados_ceps s)" "n \<le> length (rows df)"
    "length (smtp_log (mundo s)) = registro_antes ev tpl de df n0 k"
    "k \<le> j" "j < n" "series_get df j ''status'' = Inr (Val (JStr ''Sucesso''))"
  shows "series_get (dados_ceps s1) j ''EMAIL'' =
           Inr (Val (JStr (if tentativa ev tpl de df j (registro_antes ev tpl de df n0 j)
                              = Some Delivered then ''Sucesso'' else ''Erro'')))"
  using assms
proof (induction "n - k" arbitrary: k s)
  case 0
  then show ?case by simp
next
  case (Suc d)
  from Suc.prems(5,6) have kn: "k < n" by simp
  then have up: "[k..<n] = k # [Suc k..<n]" by (simp add: upt_conv_Cons)
  obtain e s' where h: "enviar_linha ev senha tpl de k s = (e, s')"
    by (cases "enviar_linha ev senha tpl de k s")
  with Suc.prems(1) up have e: "e = None"
    by (cases e) simp_all
  with Suc.prems(1) up h have rest: "enviar_loop ev senha tpl de [Suc k..<n] s' = (None, s1)"
    by simp
  have klen: "k < length (rows df)" using kn Suc.prems(3) by simp
  then have klen': "k < length (rows (dados_ceps s))"
    using igual_comprimento[OF Suc.prems(2)] by simp
  have stk: "series_get (dados_ceps s) k ''status'' = series_get df k ''status''"
    using igual_series_get[OF Suc.prems(2) klen, of "''status''"] by simp
  have tk: "tentativa ev tpl de (dados_ceps s) k m = tentativa ev tpl de df k m" for m
    using igual_tentativa[OF Suc.prems(2) klen] .
  show ?case
  proof (cases "j = k")
    case True
    have "series_get (dados_ceps s') k ''EMAIL'' =
           Inr (Val (JStr (if tentativa ev tpl de df k (registro_antes ev tpl de df n0 k)
                              = Some Delivered then ''Sucesso'' else ''Erro'')))"
      using enviar_linha_resultado(1)[OF h[unfolded e] klen'] stk Suc.prems(7) True tk
        Suc.prems(4) by simp
    moreover have "k \<notin> set [Suc k..<n]" by simp
    ultimately show ?thesis using enviar_loop_outra[OF rest] True by simp
  next
    case False
    with Suc.prems(5) have j: "Suc k \<le> j" by simp
    have ig: "igual_fora_de_email df (dados_ceps s')"
      using igual_trans[OF Suc.prems(2) enviar_linha_igual[OF h]] .
    have len: "length (smtp_log (mundo s')) = registro_antes ev tpl de df n0 (Suc k)"
    proof (cases "series_get df k ''status'' = Inr (Val (JStr ''Sucesso''))")
      case True
      with enviar_linha_resultado(2)[OF h[unfolded e] klen'] stk tk Suc.prems(4)
      show ?thesis by (simp add: Let_def split: option.splits)
    next
      case False
      with enviar_linha_sem_sucesso_registro[OF h[unfolded e]] stk Suc.prems(4)
      show ?thesis by (simp add: Let_def)
    qed
    have d: "d = n - Suc k" using Suc.hyps(2) by simp
    from Suc.hyps(1)[OF d rest ig Suc.prems(3) len j Suc.prems(6,7)] show ?thesis .
  qed
qed

text \<open>
  Claim C8, as amended. When \<^verbatim>\<open>send_emails\<close> has run to its end on a table, so that every
  row has \<^verbatim>\<open>Sucesso\<close> or \<^verbatim>\<open>Erro\<close> in \<^verbatim>\<open>EMAIL\<close>, running it again on the result sends again:
  it starts one new mail session for every row with status \<^verbatim>\<open>Sucesso\<close> whose message can
  be built, whatever the \<^verbatim>\<open>EMAIL\<close> of the row says, and the \<^verbatim>\<open>EMAIL\<close> of such a row becomes
  the outcome of the new attempt: \<^verbatim>\<open>Sucesso\<close> when the relay delivers the message of the row,
  \<^verbatim>\<open>Erro\<close> otherwise. No session is started for the other rows, which already hold
  \<^verbatim>\<open>Erro\<close> and stay as they are. Nothing but a failing write of the table can raise.
\<close>

theorem send_emails_reenvia:
  assumes "send_emails ev df senha tpl de out w = (None, df1, w1)"
  shows "\<exists>exc df2 w2.
           send_emails ev2 df1 senha2 tpl2 de2 out2 w1 = (exc, df2, w2) \<and>
           (exc = None \<or> exc = Some OSError) \<and>
           sessoes w2 = sessoes w1 +
             length (filter (\<lambda>j. series_get df1 j ''status'' = Inr (Val (JStr ''Sucesso'')) \<and>
                                 mensagem_aceita ev2 tpl2 de2 df1 j)
                       [0..<length (rows df1)]) \<and>
           (\<forall>j < length (rows df1).
              series_get df1 j ''status'' \<noteq> Inr (Val (JStr ''Sucesso'')) \<longrightarrow>
              series_get df1 j ''EMAIL'' = Inr (Val (JStr ''Erro'')) \<and>
              rows df2 ! j = rows df1 ! j) \<and>
           (\<forall>j < length (rows df1).
              series_get df1 j ''status'' = Inr (Val (JStr ''Sucesso'')) \<longrightarrow>
              series_get df2 j ''EMAIL'' =
                Inr (Val (JStr (if tentativa ev2 tpl2 de2 df1 j
                                     (registro_antes ev2 tpl2 de2 df1 (length (smtp_log w1)) j)
                                   = Some Delivered
                                then ''Sucesso'' else ''Erro''))))"
proof -
  let ?n = "length (rows df)"
  let ?s0 = "\<lparr>dados_ceps = df1, msg = None, mundo = w1\<rparr>"
  obtain s1 where l1: "enviar_loop ev senha tpl de [0..<?n]
        \<lparr>dados_ceps = df, msg = None, mundo = w\<rparr> = (None, s1)" and df1: "df1 = dados_ceps s1"
    using send_emails_loop[OF assms] by blast
  have ig: "igual_fora_de_email df df1" using send_emails_igual[OF assms] .
  have n: "length (rows df1) = ?n" using igual_comprimento[OF ig] .
  have st: "(''status'' \<in> set (columns df1) \<and> ''cep'' \<in> set (columns df1) \<and>
             ''cep'' \<in> set (columns df)) \<or> ?n = 0"
  proof (cases "?n = 0")
    case False
    then have "[0..<?n] \<noteq> []" by simp
    from enviar_loop_tem_status[OF l1 this] enviar_loop_tem_cep[OF l1 this] ig show ?thesis
      by (simp add: igual_fora_de_email_def)
  qed simp
  have cols: "tem_colunas_do_email df1 \<or>
     (\<forall>j \<in> set [0..<?n]. series_get df1 j ''status'' \<noteq> Inr (Val (JStr ''Sucesso'')))"
  proof (rule disjCI)
    assume "\<not> (\<forall>j \<in> set [0..<?n]. series_get df1 j ''status'' \<noteq> Inr (Val (JStr ''Sucesso'')))"
    then obtain j where j: "j < ?n" "series_get df1 j ''status'' = Inr (Val (JStr ''Sucesso''))"
      by auto
    then have "series_get df j ''status'' = Inr (Val (JStr ''Sucesso''))"
      using igual_series_get[OF ig, of j "''status''"] by simp
    with enviar_loop_completo_tem_colunas[OF l1, of j] j(1)
    have "tem_colunas_do_email df" by simp
    then show "tem_colunas_do_email df1" using igual_tem_colunas[OF ig] by simp
  qed
  have "\<exists>s2. enviar_loop ev2 senha2 tpl2 de2 [0..<?n] ?s0 = (None, s2) \<and>
          sessoes (mundo s2) = sessoes w1 +
            length (filter (\<lambda>j. series_get df1 j ''status'' = Inr (Val (JStr ''Sucesso'')) \<and>
                                mensagem_aceita ev2 tpl2 de2 df1 j) [0..<?n])"
  proof (cases "?n = 0")
    case True
    then show ?thesis by simp
  next
    case False
    with st have "''status'' \<in> set (columns (dados_ceps ?s0))"
      "''cep'' \<in> set (columns (dados_ceps ?s0))" by simp_all
    moreover have "tem_colunas_do_email (dados_ceps ?s0) \<or>
       (\<forall>j \<in> set [0..<?n]. series_get (dados_ceps ?s0) j ''status'' \<noteq> Inr (Val (JStr ''Sucesso'')))"
      using cols by simp
    moreover have "\<forall>j \<in> set [0..<?n]. j < length (rows (dados_ceps ?s0))" using n by simp
    ultimately show ?thesis
      using enviar_loop_reenvio[of ?s0 "[0..<?n]" ev2 senha2 tpl2 de2] by simp
  qed
  then obtain s2 where l2: "enviar_loop ev2 senha2 tpl2 de2 [0..<length (rows df1)] ?s0 = (None, s2)"
    and c2: "sessoes (mundo s2) = sessoes w1 +
            length (filter (\<lambda>j. series_get df1 j ''status'' = Inr (Val (JStr ''Sucesso'')) \<and>
                                mensagem_aceita ev2 tpl2 de2 df1 j) [0..<length (rows df1)])"
    using n by auto
  obtain exc w2 where r: "send_emails ev2 df1 senha2 tpl2 de2 out2 w1 = (exc, dados_ceps s2, w2)"
      "exc = None \<or> exc = Some OSError" "sessoes w2 = sessoes (mundo s2)"
    using loop_send_emails[OF l2] by blast
  have linhas: "series_get df1 j ''EMAIL'' = Inr (Val (JStr ''Erro'')) \<and>
        rows (dados_ceps s2) ! j = rows df1 ! j"
    if j: "j < length (rows df1)" "series_get df1 j ''status'' \<noteq> Inr (Val (JStr ''Sucesso''))" for j
  proof -
    from j(1) n st have c: "''status'' \<in> set (columns df1)" "''cep'' \<in> set (columns df1)"
      "''cep'' \<in> set (columns df)" by auto
    then obtain x where x: "series_get df1 j ''status'' = Inr x"
      using series_get_coluna by blast
    with j(2) have ne: "x \<noteq> Val (JStr ''Sucesso'')" by simp
    have "series_get df j ''status'' = Inr x"
      using igual_series_get[OF ig, of j "''status''"] j(1) n x by simp
    from send_emails_sem_sucesso[OF assms _ _ this ne c(3)] j(1) n
    have e: "series_get df1 j ''EMAIL'' = Inr (Val (JStr ''Erro''))" by simp
    have "rows (dados_ceps s2) ! j = rows (dados_ceps ?s0) ! j"
      using enviar_loop_erro_inalterada[OF l2, of j x] x ne e j(1) c(2) by simp
    with e show ?thesis by simp
  qed
  have novas: "series_get (dados_ceps s2) j ''EMAIL'' =
        Inr (Val (JStr (if tentativa ev2 tpl2 de2 df1 j
                             (registro_antes ev2 tpl2 de2 df1 (length (smtp_log w1)) j)
                           = Some Delivered
                        then ''Sucesso'' else ''Erro'')))"
    if j: "j < length (rows df1)" "series_get df1 j ''status'' = Inr (Val (JStr ''Sucesso''))" for j
    using enviar_loop_resultado[OF l2, of df1 "length (smtp_log w1)" j] j
    by (simp add: igual_refl)
  from r c2 linhas novas show ?thesis by auto
qed

theorem send_emails_reenvia_witness:
  "send_emails (ev_exemplo servicos_exemplo Delivered []) tabela_exemplo ''senha''
     ''CEP ${cep} - ${cidade}/${estado}'' ''remetente@gmail.com'' ''dados.xlsx'' mundo_inicial =
     (None, tabela_enviada ''Sucesso'', mundo_enviado) \<and>
   series_get (tabela_enviada ''Sucesso'') 0 ''EMAIL'' = Inr (Val (JStr ''Sucesso'')) \<and>
   (\<exists>exc df2 w2.
      send_emails (ev_exemplo servicos_exemplo (RaisesAt Connect) []) (tabela_enviada ''Sucesso'')
        ''senha'' ''CEP ${cep} - ${cidade}/${estado}'' ''remetente@gmail.com'' ''dados.xlsx''
        mundo_enviado = (exc, df2, w2) \<and>
      sessoes w2 = 2 \<and> rows df2 ! 1 = rows (tabela_enviada ''Sucesso'') ! 1 \<and>
      series_get df2 0 ''EMAIL'' = Inr (Val (JStr ''Erro'')))"
proof -
  let ?ev = "ev_exemplo servicos_exemplo (RaisesAt Connect) []"
  let ?tpl = "''CEP ${cep} - ${cidade}/${estado}''"
  let ?t = "tabela_enviada ''Sucesso''"
  have run: "send_emails (ev_exemplo servicos_exemplo Delivered []) tabela_exemplo ''senha''
     ?tpl ''remetente@gmail.com'' ''dados.xlsx'' mundo_inicial = (None, ?t, mundo_enviado)"
    using send_emails_exemplo [of servicos_exemplo "[]"] by (simp add: mundo_enviado_def)
  have s: "sessoes mundo_enviado = 1"
    by (simp add: sessoes_def mundo_enviado_def sessao_exemplo_def)
  have f: "length (filter (\<lambda>j. series_get ?t j ''status'' = Inr (Val (JStr ''Sucesso'')) \<and>
             mensagem_aceita ?ev ?tpl ''remetente@gmail.com'' ?t j)
           [0..<length (rows ?t)]) = 1"
    by (simp add: tabela_enviada_def series_get_def endereco_se_def upt_conv_Cons
        mensagem_aceita_def corpo_email_def montar_mensagem_def assunto_def destinatario_def
        ev_exemplo_def str_exemplo_def)
  have l: "(1::nat) < length (rows ?t)"
    "series_get ?t 1 ''status'' \<noteq> Inr (Val (JStr ''Sucesso''))"
    by (simp_all add: tabela_enviada_def series_get_def)
  have z: "(0::nat) < length (rows ?t)"
    "series_get ?t 0 ''status'' = Inr (Val (JStr ''Sucesso''))"
    "series_get ?t 0 ''EMAIL'' = Inr (Val (JStr ''Sucesso''))"
    by (simp_all add: tabela_enviada_def series_get_def endereco_se_def)
  have t: "tentativa ?ev ?tpl ''remetente@gmail.com'' ?t 0 n = Some (RaisesAt Connect)" for n
    by (simp add: tentativa_def tabela_enviada_def series_get_def endereco_se_def
        corpo_email_def montar_mensagem_def assunto_def destinatario_def
        ev_exemplo_def str_exemplo_def)
  from send_emails_reenvia [OF run, where ?ev2.0 = ?ev
      and ?senha2.0 = "''senha''" and ?tpl2.0 = ?tpl
      and ?de2.0 = "''remetente@gmail.com''" and ?out2.0 = "''dados.xlsx''"]
  obtain exc df2 w2 where r:
    "send_emails ?ev ?t ''senha'' ?tpl ''remetente@gmail.com'' ''dados.xlsx'' mundo_enviado =
       (exc, df2, w2)"
    "sessoes w2 = sessoes mundo_enviado +
             length (filter (\<lambda>j. series_get ?t j ''status'' = Inr (Val (JStr ''Sucesso'')) \<and>
                                 mensagem_aceita ?ev ?tpl ''remetente@gmail.com'' ?t j)
                       [0..<length (rows ?t)])"
    "\<forall>j < length (rows ?t).
        series_get ?t j ''status'' \<noteq> Inr (Val (JStr ''Sucesso'')) \<longrightarrow>
        series_get ?t j ''EMAIL'' = Inr (Val (JStr ''Erro'')) \<and> rows df2 ! j = rows ?t ! j"
    "\<forall>j < length (rows ?t).
        series_get ?t j ''status'' = Inr (Val (JStr ''Sucesso'')) \<longrightarrow>
        series_get df2 j ''EMAIL'' =
          Inr (Val (JStr (if tentativa ?ev ?tpl ''remetente@gmail.com'' ?t j
                               (registro_antes ?ev ?tpl ''remetente@gmail.com'' ?t
                                  (length (smtp_log mundo_enviado)) j)
                             = Some Delivered
                          then ''Sucesso'' else ''Erro'')))"
    by blast
  from r(3)[rule_format, OF l] have um: "rows df2 ! 1 = rows ?t ! 1" by simp
  from r(4)[rule_format, OF z(1,2)] t
  have zero: "series_get df2 0 ''EMAIL'' = Inr (Val (JStr ''Erro''))" by simp
  from r(1,2) s f um zero run z(3) show ?thesis by auto
qed

text \<open>
  Claim C8 as written fails. The table of the small run after delivery has a terminal
  \<^verbatim>\<open>EMAIL\<close> in both rows; a second run connects to the mail relay again, and as the relay
  now refuses the connection, the row that was \<^verbatim>\<open>Sucesso\<close> becomes \<^verbatim>\<open>Erro\<close>.
\<close>

theorem send_emails_envia_de_novo:
  "series_get (tabela_enviada ''Sucesso'') 0 ''EMAIL'' = Inr (Val (JStr ''Sucesso'')) \<and>
   series_get (tabela_enviada ''Sucesso'') 1 ''EMAIL'' = Inr (Val (JStr ''Erro'')) \<and>
   smtp_log (snd (snd (send_emails (ev_exemplo servicos_exemplo (RaisesAt Connect) [])
       (tabela_enviada ''Sucesso'') ''senha'' ''CEP ${cep} - ${cidade}/${estado}''
       ''remetente@gmail.com'' ''dados.xlsx'' mundo_enviado)))
     = smtp_log mundo_enviado @ [SmtpConnect ''smtp.gmail.com'' 587] \<and>
   fst (snd (send_emails (ev_exemplo servicos_exemplo (RaisesAt Connect) [])
       (tabela_enviada ''Sucesso'') ''senha'' ''CEP ${cep} - ${cidade}/${estado}''
       ''remetente@gmail.com'' ''dados.xlsx'' mundo_enviado))
     \<noteq> tabela_enviada ''Sucesso''"
  by (simp add: send_emails_exemplo_de_novo)
     (simp add: mundo_enviado_def tabela_enviada_def series_get_def endereco_se_def)

text \<open>
  Claim C6 at an input where the code breaks it. OpenCEP resolves the first code with a
  body that holds only \<^verbatim>\<open>cep\<close>, so the table has no column \<^verbatim>\<open>logradouro\<close>. Filling the
  template for that row raises \<^verbatim>\<open>KeyError\<close> inside the \<^verbatim>\<open>try\<close>, before any message was
  assigned to \<open>msg\<close>; the \<^verbatim>\<open>except\<close> clause then reads \<open>msg\<close> and raises in turn. The
  exception leaves \<^verbatim>\<open>send_emails\<close> and \<^verbatim>\<open>main\<close>: neither row gets an \<^verbatim>\<open>EMAIL\<close>, the table
  is not written again and no report is made.
\<close>

theorem send_emails_interrompido_por_msg:
  "process (ev_exemplo servicos_exemplo Delivered [''20040-020'', ''00000-000''])
     ''ceps_lista_30.csv'' ''dados_ceps_completos.xlsx'' mundo_inicial =
     (Some tabela_sem_endereco, mundo_sem_endereco ''dados_ceps_completos.xlsx'') \<and>
   send_emails (ev_exemplo servicos_exemplo Delivered [''20040-020'', ''00000-000''])
     tabela_sem_endereco ''senha'' ''CEP ${cep} - ${cidade}/${estado}''
     ''seu_GMAIL_aqui@gmail.com'' ''dados_ceps_completos.xlsx''
     (mundo_sem_endereco ''dados_ceps_completos.xlsx'') =
     (Some (UnboundLocalError ''msg''), tabela_sem_endereco,
      mundo_sem_endereco ''dados_ceps_completos.xlsx'') \<and>
   main (ev_exemplo servicos_exemplo Delivered [''20040-020'', ''00000-000'']) mundo_inicial =
     (Inl (UnboundLocalError ''msg''),
      logger_error (UnboundLocalError ''msg'') (mundo_sem_endereco ''dados_ceps_completos.xlsx''))"
  by (simp only: process_sem_endereco send_emails_sem_endereco main_sem_endereco simp_thms)

text \<open>
  Claim C2 at an input where the code breaks it, the same run. The second row of the
  table has status \<^verbatim>\<open>Erro\<close>. The exception that the unbound \<open>msg\<close> raises for the first
  row leaves \<^verbatim>\<open>send_emails\<close> before the loop reaches the second: no mail session was
  started, but the row still holds the empty \<^verbatim>\<open>EMAIL\<close> that \<^verbatim>\<open>process\<close> gave it and not
  \<^verbatim>\<open>Erro\<close>.
\<close>

theorem send_emails_erro_sem_marcacao:
  "process (ev_exemplo servicos_exemplo Delivered [''20040-020'', ''00000-000''])
     ''ceps_lista_30.csv'' ''dados_ceps_completos.xlsx'' mundo_inicial =
     (Some tabela_sem_endereco, mundo_sem_endereco ''dados_ceps_completos.xlsx'') \<and>
   series_get tabela_sem_endereco 1 ''status'' = Inr (Val (JStr ''Erro'')) \<and>
   fst (send_emails (ev_exemplo servicos_exemplo Delivered [''20040-020'', ''00000-000''])
          tabela_sem_endereco ''senha'' ''CEP ${cep} - ${cidade}/${estado}''
          ''seu_GMAIL_aqui@gmail.com'' ''dados_ceps_completos.xlsx''
          (mundo_sem_endereco ''dados_ceps_completos.xlsx'')) =
     Some (UnboundLocalError ''msg'') \<and>
   series_get
     (fst (snd (send_emails (ev_exemplo servicos_exemplo Delivered [''20040-020'', ''00000-000''])
          tabela_sem_endereco ''senha'' ''CEP ${cep} - ${cidade}/${estado}''
          ''seu_GMAIL_aqui@gmail.com'' ''dados_ceps_completos.xlsx''
          (mundo_sem_endereco ''dados_ceps_completos.xlsx'')))) 1 ''EMAIL'' =
     Inr (Val (JStr [])) \<and>
   series_get
     (fst (snd (send_emails (ev_exemplo servicos_exemplo Delivered [''20040-020'', ''00000-000''])
          tabela_sem_endereco ''senha'' ''CEP ${cep} - ${cidade}/${estado}''
          ''seu_GMAIL_aqui@gmail.com'' ''dados_ceps_completos.xlsx''
          (mundo_sem_endereco ''dados_ceps_completos.xlsx'')))) 1 ''EMAIL'' \<noteq>
     Inr (Val (JStr ''Erro'')) \<and>
   smtp_log
     (snd (snd (send_emails (ev_exemplo servicos_exemplo Delivered [''20040-020'', ''00000-000''])
          tabela_sem_endereco ''senha'' ''CEP ${cep} - ${cidade}/${estado}''
          ''seu_GMAIL_aqui@gmail.com'' ''dados_ceps_completos.xlsx''
          (mundo_sem_endereco ''dados_ceps_completos.xlsx'')))) = []"
  by (simp add: process_sem_endereco send_emails_sem_endereco)
     (simp add: tabela_sem_endereco_def mundo_sem_endereco_def series_get_def)

section \<open>The table and the report\<close>

lemma registro_valido_erro: "registro_valido (registro_erro cep)"
  by (simp add: registro_valido_def registro_erro_def)

lemma registro_valido_sucesso:
  assumes "resolvido r"
  shows "registro_valido (sucesso (corpo_da_resposta r))"
proof -
  from assms obtain code d where r: "r = Response code (Some (JObj d))"
    and t: "truthy (dict_get d ''cep'')"
    by (auto simp: resolvido_iff)
  have "map_of d ''cep'' \<noteq> None"
    using t by (cases "map_of d ''cep''") (simp_all add: dict_get_def)
  then have "''cep'' \<in> fst ` set d"
    by (simp add: map_of_eq_None_iff)
  then show ?thesis
    by (simp add: registro_valido_def r corpo_da_resposta_def sucesso_def update_conv' dom_update)
qed

lemma realizar_consulta_valido: "registro_valido (fst (realizar_consulta ev link cep w))"
  by (simp add: realizar_consulta_fst registro_valido_erro registro_valido_sucesso)

lemma consultar_cep_valido:
  "\<exists>resposta w'. consultar_cep ev entrada w = (Inr resposta, w') \<and> registro_valido resposta"
proof (cases "resolvido (http_get ev (length (http_log w)) (viacep_link (normalizar entrada)))")
  case True
  then show ?thesis
    by (simp add: consultar_cep_resolvido registro_valido_sucesso)
next
  case False
  then show ?thesis
    by (simp add: consultar_cep_nao_resolvido consultar_cep_opencep_def realizar_consulta_valido)
qed

lemma consultar_todos_valido:
  assumes "\<forall>d \<in> set acc. registro_valido d"
  shows "\<exists>dados w'. consultar_todos ev ceps acc w = (Inr dados, w') \<and>
           (\<forall>d \<in> set dados. registro_valido d) \<and> length dados = length acc + length ceps"
  using assms
proof (induction ceps arbitrary: acc w)
  case Nil
  then show ?case by simp
next
  case (Cons cep ceps)
  obtain d w1 where c: "consultar_cep ev (py_str ev cep) w = (Inr d, w1)" "registro_valido d"
    using consultar_cep_valido by blast
  have "\<forall>x \<in> set (acc @ [d]). registro_valido x" using Cons.prems c(2) by simp
  from Cons.IH[OF this, of w1] c(1) show ?case by simp
qed

lemma set_fold_colunas:
  "set (fold (\<lambda>k acc. if k \<in> set acc then acc else acc @ [k]) ks acc0) = set ks \<union> set acc0"
  by (induction ks arbitrary: acc0) auto

lemma columns_DataFrame: "set (columns (DataFrame ds)) = (\<Union>d \<in> set ds. fst ` set d)"
  by (simp add: DataFrame_def set_fold_colunas)


lemma process_tabela:
  assumes "process ev input_file output_file w = (Some df, w1)" "rows df \<noteq> []"
  shows "''cep'' \<in> set (columns df) \<and> ''status'' \<in> set (columns df) \<and>
         ''EMAIL'' \<in> set (columns df) \<and> status_terminal df ''status''"
proof -
  from assms(1) obtain csv dados w0 where
    t: "consultar_todos ev (column_cells csv ''CEP'') [] w = (Inr dados, w0)"
    and df: "df = set_column ''EMAIL'' (JStr []) (DataFrame dados)"
    unfolding process_def process_try_def Let_def
    by (auto split: sum.splits if_splits prod.splits)
  from consultar_todos_valido[of "[]" ev "column_cells csv ''CEP''" w] t
  have v: "\<forall>d \<in> set dados. registro_valido d" by simp
  from assms(2) df obtain d0 where d0: "d0 \<in> set dados"
    by (cases dados) (auto simp: set_column_def DataFrame_def)
  with v have "registro_valido d0" by simp
  then have k: "''cep'' \<in> fst ` set d0" "''status'' \<in> fst ` set d0"
    by (auto simp: registro_valido_def dest: map_of_SomeD intro: rev_image_eqI)
  have c: "''cep'' \<in> set (columns df)" "''status'' \<in> set (columns df)"
    "''EMAIL'' \<in> set (columns df)"
    using k d0 by (auto simp: df set_column_def columns_DataFrame)
  have "series_get df i ''status'' = Inr (Val (JStr ''Sucesso'')) \<or>
        series_get df i ''status'' = Inr (Val (JStr ''Erro''))" if i: "i < length (rows df)" for i
  proof -
    from i have i': "i < length dados" by (simp add: df set_column_def DataFrame_def)
    then have "registro_valido (dados ! i)" using v by simp
    moreover have "map_of (rows df ! i) ''status'' = map_of (dados ! i) ''status''"
      using i' by (simp add: df set_column_def DataFrame_def update_conv')
    ultimately show ?thesis
      using c(2) by (auto simp: series_get_def registro_valido_def)
  qed
  with c show ?thesis by (simp add: status_terminal_def)
qed

lemma enviar_try_tabela:
  assumes "enviar_try ev senha tpl de i s = (r, s1)"
  shows "dados_ceps s1 = (case r of Inl e \<Rightarrow> dados_ceps s
                          | Inr u \<Rightarrow> at_set i ''EMAIL'' (JStr ''Sucesso'') (dados_ceps s))"
  using assms unfolding enviar_try_def Let_def
  by (auto split: sum.splits prod.splits)

lemma enviar_linha_email_terminal:
  assumes "enviar_linha ev senha tpl de i s = (None, s1)" "i < length (rows (dados_ceps s))"
  shows "series_get (dados_ceps s1) i ''EMAIL'' = Inr (Val (JStr ''Sucesso'')) \<or>
         series_get (dados_ceps s1) i ''EMAIL'' = Inr (Val (JStr ''Erro''))"
  using assms unfolding enviar_linha_def
  by (auto split: sum.splits prod.splits if_splits option.splits
      simp: series_get_at_set dest!: enviar_try_tabela)

lemma enviar_loop_email_terminal:
  assumes "enviar_loop ev senha tpl de idxs s = (None, s1)" "distinct idxs" "i \<in> set idxs"
    "\<forall>j \<in> set idxs. j < length (rows (dados_ceps s))"
  shows "series_get (dados_ceps s1) i ''EMAIL'' = Inr (Val (JStr ''Sucesso'')) \<or>
         series_get (dados_ceps s1) i ''EMAIL'' = Inr (Val (JStr ''Erro''))"
  using assms
proof (induction idxs arbitrary: s)
  case Nil
  then show ?case by simp
next
  case (Cons j idxs)
  obtain e s' where h: "enviar_linha ev senha tpl de j s = (e, s')"
    by (cases "enviar_linha ev senha tpl de j s")
  with Cons.prems(1) have e: "e = None" by (cases e) auto
  with Cons.prems(1) h have rest: "enviar_loop ev senha tpl de idxs s' = (None, s1)" by simp
  have len: "length (rows (dados_ceps s')) = length (rows (dados_ceps s))"
    using igual_comprimento[OF enviar_linha_igual[OF h]] .
  show ?case
  proof (cases "i = j")
    case True
    have "i \<notin> set idxs" using Cons.prems(2) True by simp
    moreover have "series_get (dados_ceps s') i ''EMAIL'' = Inr (Val (JStr ''Sucesso'')) \<or>
         series_get (dados_ceps s') i ''EMAIL'' = Inr (Val (JStr ''Erro''))"
      using enviar_linha_email_terminal[OF h[unfolded e]] Cons.prems(4) True by simp
    ultimately show ?thesis using enviar_loop_outra[OF rest, of i] by blast
  next
    case False
    then have "i \<in> set idxs" using Cons.prems(3) by simp
    moreover have "distinct idxs" using Cons.prems(2) by simp
    moreover have "\<forall>j \<in> set idxs. j < length (rows (dados_ceps s'))"
      using Cons.prems(4) len by simp
    ultimately show ?thesis using Cons.IH[OF rest] by blast
  qed
qed

lemma send_emails_tabela:
  assumes "send_emails ev df senha tpl de out w = (None, df', w')" "rows df \<noteq> []"
    "''cep'' \<in> set (columns df)" "''status'' \<in> set (columns df)" "status_terminal df ''status''"
  shows "length (rows df') = length (rows df) \<and> ''cep'' \<in> set (columns df') \<and>
         ''status'' \<in> set (columns df') \<and> ''EMAIL'' \<in> set (columns df') \<and>
         status_terminal df' ''status'' \<and> status_terminal df' ''EMAIL''"
proof -
  obtain s1 where l: "enviar_loop ev senha tpl de [0..<length (rows df)]
        \<lparr>dados_ceps = df, msg = None, mundo = w\<rparr> = (None, s1)" and df': "df' = dados_ceps s1"
    using send_emails_loop[OF assms(1)] by blast
  have ig: "igual_fora_de_email df df'" using send_emails_igual[OF assms(1)] .
  have n: "length (rows df') = length (rows df)" using igual_comprimento[OF ig] .
  have e: "status_terminal df' ''EMAIL''"
    unfolding status_terminal_def
    using enviar_loop_email_terminal[OF l] n df' by simp
  have "series_get df' 0 ''EMAIL'' = Inr (Val (JStr ''Sucesso'')) \<or>
        series_get df' 0 ''EMAIL'' = Inr (Val (JStr ''Erro''))"
    using e assms(2) n by (simp add: status_terminal_def)
  then have c: "''EMAIL'' \<in> set (columns df')"
    by (auto simp: series_get_def split: if_splits)
  have s: "status_terminal df' ''status''"
    using assms(5) igual_series_get[OF ig, of _ "''status''"] n
    by (simp add: status_terminal_def)
  from ig assms(3,4) have "''cep'' \<in> set (columns df')" "''status'' \<in> set (columns df')"
    by (simp_all add: igual_fora_de_email_def)
  with n c s e show ?thesis by simp
qed


lemma soma_indicadora:
  "sum_list (map (\<lambda>x. if P x then 1 else 0) xs) = length (filter P xs)"
  by (induction xs) auto

lemma conta_card:
  assumes "c \<in> set (columns df)"
  shows "conta df c alvo =
           Inr (card {i. i < length (rows df) \<and> series_get df i c = Inr (Val (JStr alvo))})"
proof -
  have "{i. i < length (column_cells df c) \<and> column_cells df c ! i = Val (JStr alvo)} =
        {i. i < length (rows df) \<and> series_get df i c = Inr (Val (JStr alvo))}"
    using assms by (auto simp: column_cells_def series_get_def split: option.splits)
  then show ?thesis
    using assms by (simp add: conta_def soma_indicadora length_filter_conv_card)
qed

lemma status_terminal_soma:
  assumes "status_terminal df c"
  shows "card {i. i < length (rows df) \<and> series_get df i c = Inr (Val (JStr ''Sucesso''))} +
         card {i. i < length (rows df) \<and> series_get df i c = Inr (Val (JStr ''Erro''))} =
         length (rows df)"
proof -
  let ?A = "{i. i < length (rows df) \<and> series_get df i c = Inr (Val (JStr ''Sucesso''))}"
  let ?B = "{i. i < length (rows df) \<and> series_get df i c = Inr (Val (JStr ''Erro''))}"
  have "?A \<union> ?B = {..<length (rows df)}"
    using assms by (auto simp: status_terminal_def)
  moreover have "?A \<inter> ?B = {}" by auto
  moreover have "finite ?A" "finite ?B" by simp_all
  ultimately have "card ?A + card ?B = card {..<length (rows df)}"
    using card_Un_disjoint[of ?A ?B] by simp
  then show ?thesis by simp
qed

lemma linhas_relatorio_ok:
  assumes "''cep'' \<in> set (columns df)" "''status'' \<in> set (columns df)"
    "''EMAIL'' \<in> set (columns df)"
  shows "\<exists>ls. linhas_relatorio ev df idxs = Inr ls \<and> length ls = length idxs"
proof (induction idxs)
  case Nil
  then show ?case by simp
next
  case (Cons i idxs)
  obtain a b c where "series_get df i ''cep'' = Inr a" "series_get df i ''status'' = Inr b"
    "series_get df i ''EMAIL'' = Inr c"
    using series_get_coluna[OF assms(1)] series_get_coluna[OF assms(2)]
      series_get_coluna[OF assms(3)] by blast
  with Cons.IH show ?case by auto
qed

lemma gerar_relatorio_pdf_ok:
  assumes "''cep'' \<in> set (columns df)" "''status'' \<in> set (columns df)"
    "''EMAIL'' \<in> set (columns df)"
  shows "\<exists>r. gerar_relatorio_pdf ev df = Inr r \<and>
           length (linhas r) = length (rows df) \<and>
           total_consultas_sucesso r =
             card {i. i < length (rows df) \<and> series_get df i ''status'' = Inr (Val (JStr ''Sucesso''))} \<and>
           total_consultas_erro r =
             card {i. i < length (rows df) \<and> series_get df i ''status'' = Inr (Val (JStr ''Erro''))} \<and>
           total_emails_sucesso r =
             card {i. i < length (rows df) \<and> series_get df i ''EMAIL'' = Inr (Val (JStr ''Sucesso''))} \<and>
           total_emails_erro r =
             card {i. i < length (rows df) \<and> series_get df i ''EMAIL'' = Inr (Val (JStr ''Erro''))}"
proof -
  obtain ls where "linhas_relatorio ev df [0..<length (rows df)] = Inr ls"
    "length ls = length (rows df)"
    using linhas_relatorio_ok[OF assms, of ev "[0..<length (rows df)]"] by auto
  then show ?thesis
    by (simp add: gerar_relatorio_pdf_def conta_card[OF assms(2)] conta_card[OF assms(3)])
qed

lemma main_etapas:
  assumes "main ev w = (Inr (Some r), w')"
  shows "\<exists>df0 w1 senha tpl df.
           process ev ''ceps_lista_30.csv'' ''dados_ceps_completos.xlsx'' w = (Some df0, w1) \<and>
           rows df0 \<noteq> [] \<and>
           send_emails ev df0 senha tpl ''seu_GMAIL_aqui@gmail.com''
             ''dados_ceps_completos.xlsx'' w1 = (None, df, w') \<and>
           gerar_relatorio_pdf ev df = Inr r"
  using assms unfolding main_def main_try_def df_empty_def
  by (auto split: prod.splits option.splits sum.splits if_splits)


lemma process_exemplo_arquivos:
  "process (ev_exemplo servicos_exemplo so [''01001-000'', ''00000-000'']) input_file output_file
     mundo_inicial =
     (Some tabela_exemplo,
      \<lparr>http_log = [viacep_link ''01001000'', viacep_link ''00000000'', opencep_link ''00000000''],
       smtp_log = [],
       err_log = [HTTPError 400, HTTPError 404],
       excel_log = [(output_file, tabela_exemplo)]\<rparr>)"
  by (simp add: process_def process_try_def ev_exemplo_def servicos_exemplo_def column_cells_def
      str_exemplo_def consulta_defs mundo_inicial_def Let_def DataFrame_def set_column_def
      to_excel_def tabela_exemplo_def endereco_se_def)

lemma send_emails_exemplo_tabela:
  "fst (snd (send_emails (ev_exemplo servicos Delivered cs) tabela_exemplo senha
     ''CEP ${cep} - ${cidade}/${estado}'' ''seu_GMAIL_aqui@gmail.com'' out w))
     = tabela_enviada ''Sucesso'' \<and>
   fst (send_emails (ev_exemplo servicos Delivered cs) tabela_exemplo senha
     ''CEP ${cep} - ${cidade}/${estado}'' ''seu_GMAIL_aqui@gmail.com'' out w) = None"
  by (simp add: envio_defs ev_exemplo_def str_exemplo_def
      tabela_exemplo_def endereco_se_def tabela_enviada_def)

lemma gerar_relatorio_pdf_exemplo:
  "gerar_relatorio_pdf (ev_exemplo servicos so cs) (tabela_enviada ''Sucesso'') =
     Inr relatorio_exemplo"
  by (simp add: gerar_relatorio_pdf_def conta_def column_cells_def series_get_def upt_conv_Cons
      tabela_enviada_def endereco_se_def ev_exemplo_def str_exemplo_def relatorio_exemplo_def)

lemma main_exemplo:
  "fst (main (ev_exemplo servicos_exemplo Delivered [''01001-000'', ''00000-000'']) mundo_inicial)
     = Inr (Some relatorio_exemplo)"
proof -
  let ?ev = "ev_exemplo servicos_exemplo Delivered [''01001-000'', ''00000-000'']"
  have e: "rows tabela_exemplo \<noteq> []" "columns tabela_exemplo \<noteq> []"
    by (simp_all add: tabela_exemplo_def)
  obtain exc df w2 where s: "send_emails ?ev tabela_exemplo (strip (''senha'' @ [CHR 0x0A]))
     ''CEP ${cep} - ${cidade}/${estado}'' ''seu_GMAIL_aqui@gmail.com''
     ''dados_ceps_completos.xlsx''
     \<lparr>http_log = [viacep_link ''01001000'', viacep_link ''00000000'', opencep_link ''00000000''],
       smtp_log = [], err_log = [HTTPError 400, HTTPError 404],
       excel_log = [(''dados_ceps_completos.xlsx'', tabela_exemplo)]\<rparr> = (exc, df, w2)"
    using prod_cases3 by blast
  with send_emails_exemplo_tabela[of servicos_exemplo "[''01001-000'', ''00000-000'']"
      "strip (''senha'' @ [CHR 0x0A])" "''dados_ceps_completos.xlsx''"
      "\<lparr>http_log = [viacep_link ''01001000'', viacep_link ''00000000'', opencep_link ''00000000''],
       smtp_log = [], err_log = [HTTPError 400, HTTPError 404],
       excel_log = [(''dados_ceps_completos.xlsx'', tabela_exemplo)]\<rparr>"]
  have "exc = None" "df = tabela_enviada ''Sucesso''" by simp_all
  with s e show ?thesis
    by (simp add: main_def main_try_def process_exemplo_arquivos df_empty_def read_text_exemplo
        gerar_relatorio_pdf_exemplo)
qed


text \<open>
  Claim C5. When \<^verbatim>\<open>main\<close> reaches the report, the table it reports on went through
  \<^verbatim>\<open>process\<close> and a complete \<^verbatim>\<open>send_emails\<close>; the report has one line per row, each of
  its four totals is the number of rows whose \<^verbatim>\<open>status\<close> (or \<^verbatim>\<open>EMAIL\<close>) cell is the value
  counted, and on both axes the successes and the errors add up to the number of rows.
\<close>

theorem relatorio_contagens_exatas:
  assumes "main ev w = (Inr (Some r), w')"
  shows "\<exists>df0 w1 senha tpl df.
           process ev ''ceps_lista_30.csv'' ''dados_ceps_completos.xlsx'' w = (Some df0, w1) \<and>
           send_emails ev df0 senha tpl ''seu_GMAIL_aqui@gmail.com''
             ''dados_ceps_completos.xlsx'' w1 = (None, df, w') \<and>
           gerar_relatorio_pdf ev df = Inr r \<and>
           length (linhas r) = length (rows df) \<and>
           total_consultas_sucesso r =
             card {i. i < length (rows df) \<and> series_get df i ''status'' = Inr (Val (JStr ''Sucesso''))} \<and>
           total_consultas_erro r =
             card {i. i < length (rows df) \<and> series_get df i ''status'' = Inr (Val (JStr ''Erro''))} \<and>
           total_emails_sucesso r =
             card {i. i < length (rows df) \<and> series_get df i ''EMAIL'' = Inr (Val (JStr ''Sucesso''))} \<and>
           total_emails_erro r =
             card {i. i < length (rows df) \<and> series_get df i ''EMAIL'' = Inr (Val (JStr ''Erro''))} \<and>
           total_consultas_sucesso r + total_consultas_erro r = length (rows df) \<and>
           total_emails_sucesso r + total_emails_erro r = length (rows df)"
proof -
  obtain df0 w1 senha tpl df where
    p: "process ev ''ceps_lista_30.csv'' ''dados_ceps_completos.xlsx'' w = (Some df0, w1)"
    and ne: "rows df0 \<noteq> []"
    and s: "send_emails ev df0 senha tpl ''seu_GMAIL_aqui@gmail.com''
             ''dados_ceps_completos.xlsx'' w1 = (None, df, w')"
    and g: "gerar_relatorio_pdf ev df = Inr r"
    using main_etapas[OF assms] by blast
  from process_tabela[OF p ne] have t0: "''cep'' \<in> set (columns df0)"
    "''status'' \<in> set (columns df0)" "status_terminal df0 ''status''" by simp_all
  from send_emails_tabela[OF s ne t0] have t: "''cep'' \<in> set (columns df)"
    "''status'' \<in> set (columns df)" "''EMAIL'' \<in> set (columns df)"
    "status_terminal df ''status''" "status_terminal df ''EMAIL''" by simp_all
  from gerar_relatorio_pdf_ok[OF t(1-3), of ev] g have c:
    "length (linhas r) = length (rows df)"
    "total_consultas_sucesso r =
       card {i. i < length (rows df) \<and> series_get df i ''status'' = Inr (Val (JStr ''Sucesso''))}"
    "total_consultas_erro r =
       card {i. i < length (rows df) \<and> series_get df i ''status'' = Inr (Val (JStr ''Erro''))}"
    "total_emails_sucesso r =
       card {i. i < length (rows df) \<and> series_get df i ''EMAIL'' = Inr (Val (JStr ''Sucesso''))}"
    "total_emails_erro r =
       card {i. i < length (rows df) \<and> series_get df i ''EMAIL'' = Inr (Val (JStr ''Erro''))}"
    by simp_all
  have "total_consultas_sucesso r + total_consultas_erro r = length (rows df)"
    "total_emails_sucesso r + total_emails_erro r = length (rows df)"
    using status_terminal_soma[OF t(4)] status_terminal_soma[OF t(5)] c by simp_all
  with p s g c show ?thesis by blast
qed

theorem relatorio_contagens_exatas_witness:
  "fst (main (ev_exemplo servicos_exemplo Delivered [''01001-000'', ''00000-000'']) mundo_inicial)
     = Inr (Some relatorio_exemplo) \<and>
   total_consultas_sucesso relatorio_exemplo + total_consultas_erro relatorio_exemplo
     = length (linhas relatorio_exemplo) \<and>
   total_emails_sucesso relatorio_exemplo + total_emails_erro relatorio_exemplo
     = length (linhas relatorio_exemplo)"
proof -
  let ?ev = "ev_exemplo servicos_exemplo Delivered [''01001-000'', ''00000-000'']"
  have "main ?ev mundo_inicial = (Inr (Some relatorio_exemplo), snd (main ?ev mundo_inicial))"
    using main_exemplo by (simp add: prod_eq_iff)
  from relatorio_contagens_exatas[OF this] main_exemplo show ?thesis by auto
qed

text \<open>
  Claim C9. When the input file has no column \<^verbatim>\<open>CEP\<close>, \<^verbatim>\<open>process\<close> reports the error and
  returns no table: no request has been made and nothing has been written. \<^verbatim>\<open>main\<close> then
  stops with an exception at its first use of the missing table.
\<close>

theorem process_sem_coluna_cep:
  assumes "read_csv ev input_file = Inr csv" "''CEP'' \<notin> set (columns csv)"
  shows "process ev input_file output_file w = (None, logger_error (ValueError SemColunaCEP) w) \<and>
         http_log (snd (process ev input_file output_file w)) = http_log w \<and>
         excel_log (snd (process ev input_file output_file w)) = excel_log w \<and>
         (input_file = ''ceps_lista_30.csv'' \<longrightarrow>
            main ev w = (Inl AttributeError,
                         logger_error AttributeError (logger_error (ValueError SemColunaCEP) w)))"
proof -
  have p: "process ev input_file output_file w = (None, logger_error (ValueError SemColunaCEP) w)"
    for output_file
    using assms by (simp add: process_def process_try_def)
  have m: "main ev w = (Inl AttributeError,
                         logger_error AttributeError (logger_error (ValueError SemColunaCEP) w))"
    if "input_file = ''ceps_lista_30.csv''"
    using p[of "''dados_ceps_completos.xlsx''"] that by (simp add: main_def main_try_def)
  from p[of output_file] m show ?thesis by (simp add: logger_error_def)
qed

theorem process_sem_coluna_cep_witness:
  "process ((ev_exemplo servicos_exemplo Delivered [])
              \<lparr>read_csv := \<lambda>f. Inr \<lparr>columns = [''Codigo''],
                                     rows = [[(''Codigo'', JStr ''01001-000'')]]\<rparr>\<rparr>)
     ''ceps_lista_30.csv'' ''dados_ceps_completos.xlsx'' mundo_inicial =
     (None, \<lparr>http_log = [], smtp_log = [], err_log = [ValueError SemColunaCEP], excel_log = []\<rparr>) \<and>
   main ((ev_exemplo servicos_exemplo Delivered [])
              \<lparr>read_csv := \<lambda>f. Inr \<lparr>columns = [''Codigo''],
                                     rows = [[(''Codigo'', JStr ''01001-000'')]]\<rparr>\<rparr>) mundo_inicial =
     (Inl AttributeError,
      \<lparr>http_log = [], smtp_log = [], err_log = [ValueError SemColunaCEP, AttributeError],
       excel_log = []\<rparr>)"
  using process_sem_coluna_cep [where ev = "(ev_exemplo servicos_exemplo Delivered [])
              \<lparr>read_csv := \<lambda>f. Inr \<lparr>columns = [''Codigo''],
                                     rows = [[(''Codigo'', JStr ''01001-000'')]]\<rparr>\<rparr>"
      and input_file = "''ceps_lista_30.csv''" and output_file = "''dados_ceps_completos.xlsx''"
      and w = mundo_inicial
      and csv = "\<lparr>columns = [''Codigo''], rows = [[(''Codigo'', JStr ''01001-000'')]]\<rparr>"]
  by (simp add: logger_error_def mundo_inicial_def)

end
